theory Spec2Isabelle
  imports Complex_Main "HOL-Library.Char_ord" "HOL-Library.List_Lexorder"
    "HOL-Library.Multiset" "HOL-Library.Word"
begin

unbundle bit_operations_syntax

section \<open>Python values, exceptions and strings\<close>

text \<open>
  The exceptions that the modelled code can see. A \<open>KeyError\<close> carries the missing key,
  every other exception its message. \<open>ServiceError\<close> stands for whatever an external
  service (the embedding model, the vector store client, the agent framework) raises; all of
  them are subclasses of Python's \<open>Exception\<close>, which is what the handlers of the source
  catch. \<open>str_exn\<close> is \<open>str(e)\<close>: the message, and for a \<open>KeyError\<close> the key
  between single quotes.
\<close>

datatype exn =
    KeyError string
  | TypeError string
  | ZeroDivisionError string
  | ServiceError string

fun str_exn :: "exn \<Rightarrow> string" where
  "str_exn (KeyError k) = CHR 0x27 # k @ [CHR 0x27]"
| "str_exn (TypeError m) = m"
| "str_exn (ZeroDivisionError m) = m"
| "str_exn (ServiceError m) = m"

text \<open>
  \<open>str.lower()\<close> on the characters of a \<open>string\<close> (8-bit characters): the letters
  \<open>A\<close> to \<open>Z\<close> move to \<open>a\<close> to \<open>z\<close>, every other character stays.
\<close>

definition lower_char :: "char \<Rightarrow> char" where
  "lower_char c =
     (let n = (of_char c :: nat) in if 65 \<le> n \<and> n \<le> 90 then char_of (n + 32) else c)"

definition lower :: "string \<Rightarrow> string" where
  "lower s = map lower_char s"

text \<open>\<open>sub in s\<close> on strings: \<open>sub\<close> occurs in \<open>s\<close> as a contiguous block.\<close>

fun starts_with :: "string \<Rightarrow> string \<Rightarrow> bool" where
  "starts_with [] s = True"
| "starts_with (p # ps) [] = False"
| "starts_with (p # ps) (c # cs) = (p = c \<and> starts_with ps cs)"

fun str_in :: "string \<Rightarrow> string \<Rightarrow> bool" where
  "str_in sub [] = (sub = [])"
| "str_in sub (c # cs) = (starts_with sub (c # cs) \<or> str_in sub cs)"

section \<open>The scraper adapter (src/tools/scraper_tool.py)\<close>

text \<open>
  \<open>WebScraperTool._run(url)\<close> returns the f-string
  \<open>f"Placeholder content for {url}. This tool is not fully implemented yet."\<close>.
\<close>

definition WebScraperTool_run :: "string \<Rightarrow> string" where
  "WebScraperTool_run url =
     ''Placeholder content for '' @ url @ ''. This tool is not fully implemented yet.''"

section \<open>The agent orchestrator (src/agents/crew_manager.py)\<close>

text \<open>
  What \<open>run_research\<close> does to the outside world, in order: it sleeps and it calls
  \<open>crew.kickoff\<close>. The argument of \<open>Kickoff\<close> is the value of the loop variable
  \<open>attempt\<close> at the call. The progress messages it prints are left out.
\<close>

datatype event = Sleep nat | Kickoff nat

fun is_kickoff :: "event \<Rightarrow> bool" where
  "is_kickoff (Kickoff attempt) = True"
| "is_kickoff (Sleep seconds) = False"

text \<open>
  The two error classes that the loop retries, read off the lower-cased message.
\<close>

definition is_rate_limit :: "string \<Rightarrow> bool" where
  "is_rate_limit error_str \<longleftrightarrow>
     str_in ''rate_limit'' error_str \<or> str_in ''ratelimit'' error_str"

definition is_empty_response :: "string \<Rightarrow> bool" where
  "is_empty_response error_str \<longleftrightarrow>
     str_in ''none or empty'' error_str \<or> str_in ''invalid response'' error_str"

text \<open>
  The body of \<open>for attempt in range(max_retries)\<close>, as a recursion over the attempts
  that are still to come. \<open>kickoff attempt\<close> is the outcome of the call of
  \<open>crew.kickoff\<close> made in iteration \<open>attempt\<close>: a report, or the exception it raises.
  The result is what \<open>run_research\<close> returns (\<open>Inr (Some result)\<close>), or \<open>Inr None\<close>
  when the loop ends without a return, or \<open>Inl e\<close> when \<open>e\<close> is raised to the caller,
  together with the events so far.
\<close>

fun attempts ::
  "nat \<Rightarrow> nat \<Rightarrow> (nat \<Rightarrow> exn + 'r) \<Rightarrow> nat list \<Rightarrow> event list
     \<Rightarrow> (exn + 'r option) \<times> event list" where
  "attempts max_retries retry_delay kickoff [] tr = (Inr None, tr)"
| "attempts max_retries retry_delay kickoff (attempt # rest) tr =
     (let tr1 = (if attempt > 0 then tr @ [Sleep retry_delay] else tr);
          tr2 = tr1 @ [Kickoff attempt]
      in case kickoff attempt of
           Inr result \<Rightarrow> (Inr (Some result), tr2)
         | Inl e \<Rightarrow>
             (let error_str = lower (str_exn e) in
              if is_rate_limit error_str then
                (if int attempt < int max_retries - 1
                 then attempts max_retries retry_delay kickoff rest (tr2 @ [Sleep retry_delay])
                 else (Inl e, tr2))
              else if is_empty_response error_str then
                (if int attempt < int max_retries - 1
                 then attempts max_retries retry_delay kickoff rest (tr2 @ [Sleep retry_delay])
                 else (Inl e, tr2))
              else (Inl e, tr2)))"

text \<open>
  \<open>run_research\<close>: \<open>create_crew\<close> either raises (nothing else happens) or gives the
  crew, whose \<open>kickoff\<close> is the oracle above; then the initial cooldown of 15 seconds and
  the loop with \<open>max_retries = 2\<close> and \<open>retry_delay = 60\<close>.
\<close>

definition initial_cooldown :: nat where
  "initial_cooldown = 15"

definition max_retries :: nat where
  "max_retries = 2"

definition retry_delay :: nat where
  "retry_delay = 60"

definition run_research :: "exn + (nat \<Rightarrow> exn + 'r) \<Rightarrow> (exn + 'r option) \<times> event list" where
  "run_research crew =
     (case crew of
        Inl e \<Rightarrow> (Inl e, [])
      | Inr kickoff \<Rightarrow>
          attempts max_retries retry_delay kickoff [0..<max_retries] [Sleep initial_cooldown])"

section \<open>The vector store and the embedding model\<close>

text \<open>
  Metadata values are strings, integers and floats; a float is modelled by the real number
  it stands for. A metadata dictionary is a map from keys to values.
\<close>

datatype val = VStr string | VInt int | VFloat real

type_synonym metadata = "string \<rightharpoonup> val"

type_synonym embedding = "real list"

text \<open>One stored vector: \<open>{'id': ..., 'values': ..., 'metadata': ...}\<close>.\<close>

record vector =
  vec_id :: string
  vec_values :: embedding
  vec_metadata :: metadata

text \<open>An index holds vectors under a namespace and an id.\<close>

type_synonym index = "string \<times> string \<rightharpoonup> vector"

text \<open>The arguments of \<open>index.query\<close> and one entry of \<open>response['matches']\<close>.\<close>

record query_request =
  q_vector :: embedding
  q_top_k :: int
  q_include_metadata :: bool
  q_namespace :: "string option"
  q_filter :: "(string \<times> val) list"

record scored_match =
  m_metadata :: metadata
  m_score :: real

text \<open>
  What the outside world does during one call of an operation:
  \<^item> \<open>now k\<close> is the \<open>k\<close>-th reading of \<open>datetime.now().isoformat()\<close> in the call;
  \<^item> \<open>encode text\<close> is the outcome of the embedding model on \<open>text\<close>;
  \<^item> \<open>fetch_error\<close>, \<open>upsert_error\<close>: the exception that the fetch or upsert request
    raises, if it raises one;
  \<^item> \<open>fetch_has_vectors\<close>: whether the fetch response has a \<open>vectors\<close> attribute;
  \<^item> \<open>query\<close>: the outcome of the similarity search on an index, which the service
    decides: an exception or the list of matches;
  \<^item> \<open>repr_float\<close>: how Python prints a float inside an f-string.
\<close>

record services =
  now :: "nat \<Rightarrow> string"
  encode :: "string \<Rightarrow> exn + embedding"
  fetch_error :: "exn option"
  fetch_has_vectors :: bool
  upsert_error :: "exn option"
  query :: "index \<Rightarrow> query_request \<Rightarrow> exn + scored_match list"
  repr_float :: "real \<Rightarrow> string"

text \<open>
  \<open>index.fetch(ids, namespace)\<close>: raises, or answers with the stored vectors among
  \<open>ids\<close> (\<open>None\<close> stands for a response object without the \<open>vectors\<close> attribute).
\<close>

definition fetch ::
  "services \<Rightarrow> index \<Rightarrow> string list \<Rightarrow> string \<Rightarrow> exn + (string \<rightharpoonup> vector) option" where
  "fetch svc idx ids namespace =
     (case fetch_error svc of
        Some e \<Rightarrow> Inl e
      | None \<Rightarrow>
          if fetch_has_vectors svc
          then Inr (Some (\<lambda>i. if i \<in> set ids then idx (namespace, i) else None))
          else Inr None)"

text \<open>
  \<open>index.upsert(vectors, namespace)\<close>: raises and leaves the index as it is, or stores
  every vector under its id, replacing what was there.
\<close>

definition upsert :: "services \<Rightarrow> index \<Rightarrow> vector list \<Rightarrow> string \<Rightarrow> exn + index" where
  "upsert svc idx vectors namespace =
     (case upsert_error svc of
        Some e \<Rightarrow> Inl e
      | None \<Rightarrow> Inr (fold (\<lambda>v i. i((namespace, vec_id v) \<mapsto> v)) vectors idx))"

text \<open>A value inside an f-string.\<close>

fun str_nat :: "nat \<Rightarrow> string" where
  "str_nat n =
     (if n < 10 then [char_of (48 + n)] else str_nat (n div 10) @ [char_of (48 + n mod 10)])"

definition str_int :: "int \<Rightarrow> string" where
  "str_int i = (if i < 0 then CHR ''-'' # str_nat (nat (- i)) else str_nat (nat i))"

fun format_val :: "services \<Rightarrow> val \<Rightarrow> string" where
  "format_val svc (VStr s) = s"
| "format_val svc (VInt i) = str_int i"
| "format_val svc (VFloat r) = repr_float svc r"

text \<open>
  \<open>try: body  except Exception: return d\<close>: the handler turns every exception of the
  body into the value \<open>d\<close>.
\<close>

definition except_return :: "exn + 'a \<Rightarrow> 'a \<Rightarrow> exn + 'a" where
  "except_return body d = (case body of Inl e \<Rightarrow> Inr d | Inr x \<Rightarrow> Inr x)"

section \<open>\<open>hashlib.md5\<close>\<close>

text \<open>
  The MD5 message digest on a byte string, as \<open>hashlib.md5(bytes).hexdigest()\<close> gives
  it: the per-round shift amounts and constants, padding to a multiple of 64 bytes with the
  bit length in the last eight, sixteen little-endian words per block, sixty-four steps per
  block, and the four chaining words printed as 32 lower-case hexadecimal digits.
  A \<open>string\<close> is taken as the bytes that \<open>str.encode()\<close> yields.
\<close>

definition md5_shifts :: "nat list" where
  "md5_shifts =
     [7, 12, 17, 22, 7, 12, 17, 22, 7, 12, 17, 22, 7, 12, 17, 22,
      5, 9, 14, 20, 5, 9, 14, 20, 5, 9, 14, 20, 5, 9, 14, 20,
      4, 11, 16, 23, 4, 11, 16, 23, 4, 11, 16, 23, 4, 11, 16, 23,
      6, 10, 15, 21, 6, 10, 15, 21, 6, 10, 15, 21, 6, 10, 15, 21]"

definition md5_consts :: "32 word list" where
  "md5_consts =
     [0xd76aa478, 0xe8c7b756, 0x242070db, 0xc1bdceee,
      0xf57c0faf, 0x4787c62a, 0xa8304613, 0xfd469501,
      0x698098d8, 0x8b44f7af, 0xffff5bb1, 0x895cd7be,
      0x6b901122, 0xfd987193, 0xa679438e, 0x49b40821,
      0xf61e2562, 0xc040b340, 0x265e5a51, 0xe9b6c7aa,
      0xd62f105d, 0x02441453, 0xd8a1e681, 0xe7d3fbc8,
      0x21e1cde6, 0xc33707d6, 0xf4d50d87, 0x455a14ed,
      0xa9e3e905, 0xfcefa3f8, 0x676f02d9, 0x8d2a4c8a,
      0xfffa3942, 0x8771f681, 0x6d9d6122, 0xfde5380c,
      0xa4beea44, 0x4bdecfa9, 0xf6bb4b60, 0xbebfbc70,
      0x289b7ec6, 0xeaa127fa, 0xd4ef3085, 0x04881d05,
      0xd9d4d039, 0xe6db99e5, 0x1fa27cf8, 0xc4ac5665,
      0xf4292244, 0x432aff97, 0xab9423a7, 0xfc93a039,
      0x655b59c3, 0x8f0ccc92, 0xffeff47d, 0x85845dd1,
      0x6fa87e4f, 0xfe2ce6e0, 0xa3014314, 0x4e0811a1,
      0xf7537e82, 0xbd3af235, 0x2ad7d2bb, 0xeb86d391]"

definition rotl32 :: "nat \<Rightarrow> 32 word \<Rightarrow> 32 word" where
  "rotl32 n x = push_bit n x OR drop_bit (32 - n) x"

definition le_bytes64 :: "64 word \<Rightarrow> 8 word list" where
  "le_bytes64 w = map (\<lambda>i. ucast (drop_bit (8 * i) w)) [0..<8]"

definition le_bytes32 :: "32 word \<Rightarrow> 8 word list" where
  "le_bytes32 w = map (\<lambda>i. ucast (drop_bit (8 * i) w)) [0..<4]"

definition md5_pad :: "8 word list \<Rightarrow> 8 word list" where
  "md5_pad msg =
     msg @ [0x80] @ replicate ((119 - length msg mod 64) mod 64) 0
       @ le_bytes64 (word_of_nat (8 * length msg))"

fun word_of_bytes :: "8 word list \<Rightarrow> 32 word" where
  "word_of_bytes [] = 0"
| "word_of_bytes (b # bs) = ucast b OR push_bit 8 (word_of_bytes bs)"

fun chunks :: "nat \<Rightarrow> nat \<Rightarrow> 'a list \<Rightarrow> 'a list list" where
  "chunks 0 k xs = []"
| "chunks (Suc n) k xs = take k xs # chunks n k (drop k xs)"

definition md5_blocks :: "8 word list \<Rightarrow> 32 word list list" where
  "md5_blocks bytes =
     map (\<lambda>block. map word_of_bytes (chunks 16 4 block)) (chunks (length bytes div 64) 64 bytes)"

text \<open>The four chaining words.\<close>

type_synonym md5_state = "32 word \<times> 32 word \<times> 32 word \<times> 32 word"

definition md5_step :: "32 word list \<Rightarrow> nat \<Rightarrow> md5_state \<Rightarrow> md5_state" where
  "md5_step m i st =
     (case st of (a, b, c, d) \<Rightarrow>
        let (f, g) =
              (if i < 16 then ((b AND c) OR (NOT b AND d), i)
               else if i < 32 then ((d AND b) OR (NOT d AND c), (5 * i + 1) mod 16)
               else if i < 48 then (b XOR c XOR d, (3 * i + 5) mod 16)
               else (c XOR (b OR NOT d), (7 * i) mod 16));
            f' = f + a + md5_consts ! i + m ! g
        in (d, b + rotl32 (md5_shifts ! i) f', b, c))"

definition md5_block :: "32 word list \<Rightarrow> md5_state \<Rightarrow> md5_state" where
  "md5_block m st =
     (case st of (a0, b0, c0, d0) \<Rightarrow>
        case fold (md5_step m) [0..<64] st of (a, b, c, d) \<Rightarrow> (a0 + a, b0 + b, c0 + c, d0 + d))"

definition md5_init :: md5_state where
  "md5_init = (0x67452301, 0xefcdab89, 0x98badcfe, 0x10325476)"

definition hex_digit :: "nat \<Rightarrow> char" where
  "hex_digit n = (if n < 10 then char_of (48 + n) else char_of (87 + n))"

definition hex_byte :: "8 word \<Rightarrow> string" where
  "hex_byte b = [hex_digit (unat (drop_bit 4 b)), hex_digit (unat (b AND 15))]"

definition md5_hexdigest :: "string \<Rightarrow> string" where
  "md5_hexdigest s =
     (case fold md5_block (md5_blocks (md5_pad (map of_char s))) md5_init of
        (a, b, c, d) \<Rightarrow> concat (map (\<lambda>w. concat (map hex_byte (le_bytes32 w))) [a, b, c, d]))"

section \<open>The job manager (src/pinecone_ops/operations.py)\<close>

subsection \<open>\<open>get_job\<close> and \<open>update_job_status\<close>\<close>

text \<open>
  \<open>get_job\<close>: the fetched vector, or \<open>None\<close> when the fetch raises, when the response
  has no \<open>vectors\<close> attribute or when \<open>job_id\<close> is not among its keys.
\<close>

definition get_job :: "services \<Rightarrow> index \<Rightarrow> string \<Rightarrow> vector option" where
  "get_job svc job_index job_id =
     (case fetch svc job_index [job_id] ''jobs'' of
        Inl e \<Rightarrow> None
      | Inr response \<Rightarrow>
          (case response of
             None \<Rightarrow> None
           | Some vectors \<Rightarrow> if job_id \<in> dom vectors then vectors job_id else None))"

text \<open>
  The merge of lines 113 to 124: a copy of the stored metadata with \<open>status\<close> and
  \<open>updated_at\<close> set, then \<open>report\<close> and \<open>error_message\<close> when they are truthy (given
  and not empty), then \<open>source_count\<close> when it is not \<open>None\<close>.
\<close>

definition merge_metadata ::
  "metadata \<Rightarrow> string \<Rightarrow> string \<Rightarrow> string option \<Rightarrow> string option \<Rightarrow> int option \<Rightarrow> metadata" where
  "merge_metadata old status timestamp report error_message source_count =
     (let m1 = old(''status'' \<mapsto> VStr status, ''updated_at'' \<mapsto> VStr timestamp);
          m2 = (case report of
                  Some r \<Rightarrow> if r \<noteq> [] then m1(''report'' \<mapsto> VStr r) else m1
                | None \<Rightarrow> m1);
          m3 = (case error_message of
                  Some msg \<Rightarrow> if msg \<noteq> [] then m2(''error_message'' \<mapsto> VStr msg) else m2
                | None \<Rightarrow> m2)
      in case source_count of
           Some n \<Rightarrow> m3(''source_count'' \<mapsto> VInt n)
         | None \<Rightarrow> m3)"

text \<open>The text that is embedded for the updated job (lines 127 to 129).\<close>

definition update_embedding_text :: "services \<Rightarrow> val \<Rightarrow> string \<Rightarrow> string option \<Rightarrow> string" where
  "update_embedding_text svc topic status report =
     (let embedding_text =
            ''Research job: '' @ format_val svc topic @ '' Status: '' @ status @ '' Type: research''
      in case report of
           Some r \<Rightarrow> if r \<noteq> [] then embedding_text @ '' Report: '' @ take 500 r else embedding_text
         | None \<Rightarrow> embedding_text)"

text \<open>
  The body of the \<open>try\<close> block of \<open>update_job_status\<close>, with the job index before and
  after. An exception leaves the index as it was.
\<close>

definition update_job_status_body ::
  "services \<Rightarrow> index \<Rightarrow> string \<Rightarrow> string \<Rightarrow> string option \<Rightarrow> string option \<Rightarrow> int option
     \<Rightarrow> (exn + bool) \<times> index" where
  "update_job_status_body svc job_index job_id status report error_message source_count =
     (case get_job svc job_index job_id of
        None \<Rightarrow> (Inr False, job_index)
      | Some job_data \<Rightarrow>
          (let updated_metadata =
                 merge_metadata (vec_metadata job_data) status (now svc 0)
                   report error_message source_count
           in case updated_metadata ''topic'' of
                None \<Rightarrow> (Inl (KeyError ''topic''), job_index)
              | Some topic \<Rightarrow>
                  (case encode svc (update_embedding_text svc topic status report) of
                     Inl e \<Rightarrow> (Inl e, job_index)
                   | Inr embedding \<Rightarrow>
                       (case upsert svc job_index
                               [\<lparr>vec_id = job_id, vec_values = embedding,
                                 vec_metadata = updated_metadata\<rparr>] ''jobs'' of
                          Inl e \<Rightarrow> (Inl e, job_index)
                        | Inr job_index' \<Rightarrow> (Inr True, job_index')))))"

definition update_job_status ::
  "services \<Rightarrow> index \<Rightarrow> string \<Rightarrow> string \<Rightarrow> string option \<Rightarrow> string option \<Rightarrow> int option
     \<Rightarrow> (exn + bool) \<times> index" where
  "update_job_status svc job_index job_id status report error_message source_count =
     (case update_job_status_body svc job_index job_id status report error_message source_count of
        (body, job_index') \<Rightarrow> (except_return body False, job_index'))"

subsection \<open>Sorting by creation date\<close>

text \<open>
  \<open>jobs.sort(key=lambda x: x['created_at'], reverse=True)\<close>. The keys are computed
  first, and a job without the key raises \<open>KeyError\<close>. Strings compare with strings
  (character by character, by code) and numbers with numbers; a list that holds both
  raises \<open>TypeError\<close>. The sort is stable, and \<open>reverse=True\<close> keeps it stable: Python
  reverses the list, sorts it in ascending order and reverses the result.
\<close>

fun created_at_keys :: "metadata list \<Rightarrow> exn + val list" where
  "created_at_keys [] = Inr []"
| "created_at_keys (x # xs) =
     (case x ''created_at'' of
        None \<Rightarrow> Inl (KeyError ''created_at'')
      | Some v \<Rightarrow> (case created_at_keys xs of Inl e \<Rightarrow> Inl e | Inr vs \<Rightarrow> Inr (v # vs)))"

fun is_str :: "val \<Rightarrow> bool" where
  "is_str (VStr s) = True"
| "is_str v = False"

definition str_key :: "metadata \<Rightarrow> string" where
  "str_key x = (case x ''created_at'' of Some (VStr s) \<Rightarrow> s | _ \<Rightarrow> [])"

definition num_key :: "metadata \<Rightarrow> real" where
  "num_key x =
     (case x ''created_at'' of Some (VInt i) \<Rightarrow> real_of_int i | Some (VFloat r) \<Rightarrow> r | _ \<Rightarrow> 0)"

definition sort_reverse :: "('a \<Rightarrow> 'k::linorder) \<Rightarrow> 'a list \<Rightarrow> 'a list" where
  "sort_reverse f xs = rev (sort_key f (rev xs))"

definition sort_by_created_at :: "metadata list \<Rightarrow> exn + metadata list" where
  "sort_by_created_at jobs =
     (case created_at_keys jobs of
        Inl e \<Rightarrow> Inl e
      | Inr keys \<Rightarrow>
          if list_all is_str keys then Inr (sort_reverse str_key jobs)
          else if list_all (\<lambda>v. \<not> is_str v) keys then Inr (sort_reverse num_key jobs)
          else Inl (TypeError ''not supported between str and number''))"

text \<open>\<open>xs[:n]\<close>: a negative \<open>n\<close> counts from the end.\<close>

definition slice_to :: "int \<Rightarrow> 'a list \<Rightarrow> 'a list" where
  "slice_to n xs = (if 0 \<le> n then take (nat n) xs else take (nat (int (length xs) + n)) xs)"

subsection \<open>\<open>get_job_history\<close> and \<open>search_jobs_by_topic\<close>\<close>

definition history_query_text :: "string option \<Rightarrow> string" where
  "history_query_text user_id =
     (case user_id of
        Some u \<Rightarrow>
          if u \<noteq> [] then ''Research jobs for user '' @ u @ '' job history''
          else ''Research job history all jobs''
      | None \<Rightarrow> ''Research job history all jobs'')"

definition history_filter :: "string option \<Rightarrow> (string \<times> val) list" where
  "history_filter user_id =
     (case user_id of
        Some u \<Rightarrow>
          if u \<noteq> [] then [(''job_type'', VStr ''research''), (''user_id'', VStr u)]
          else [(''job_type'', VStr ''research'')]
      | None \<Rightarrow> [(''job_type'', VStr ''research'')])"

definition history_request :: "embedding \<Rightarrow> string option \<Rightarrow> int \<Rightarrow> query_request" where
  "history_request query_embedding user_id limit =
     \<lparr>q_vector = query_embedding, q_top_k = limit, q_include_metadata = True,
      q_namespace = Some ''jobs'', q_filter = history_filter user_id\<rparr>"

text \<open>The loop over \<open>response['matches']\<close>: each match gives its metadata plus the score.\<close>

definition with_score :: "string \<Rightarrow> scored_match \<Rightarrow> metadata" where
  "with_score key m = (m_metadata m)(key \<mapsto> VFloat (m_score m))"

definition get_job_history_body ::
  "services \<Rightarrow> index \<Rightarrow> string option \<Rightarrow> int \<Rightarrow> exn + metadata list" where
  "get_job_history_body svc job_index user_id limit =
     (case encode svc (history_query_text user_id) of
        Inl e \<Rightarrow> Inl e
      | Inr query_embedding \<Rightarrow>
          (case query svc job_index (history_request query_embedding user_id limit) of
             Inl e \<Rightarrow> Inl e
           | Inr matches \<Rightarrow> sort_by_created_at (map (with_score ''score'') matches)))"

definition get_job_history ::
  "services \<Rightarrow> index \<Rightarrow> string option \<Rightarrow> int \<Rightarrow> exn + metadata list" where
  "get_job_history svc job_index user_id limit =
     except_return (get_job_history_body svc job_index user_id limit) []"

definition topic_request :: "embedding \<Rightarrow> int \<Rightarrow> query_request" where
  "topic_request query_embedding limit =
     \<lparr>q_vector = query_embedding, q_top_k = limit, q_include_metadata = True,
      q_namespace = Some ''jobs'', q_filter = []\<rparr>"

definition search_jobs_by_topic_body ::
  "services \<Rightarrow> index \<Rightarrow> string \<Rightarrow> int \<Rightarrow> exn + metadata list" where
  "search_jobs_by_topic_body svc job_index search_topic limit =
     (case encode svc (''Research topic: '' @ search_topic) of
        Inl e \<Rightarrow> Inl e
      | Inr query_embedding \<Rightarrow>
          (case query svc job_index (topic_request query_embedding limit) of
             Inl e \<Rightarrow> Inl e
           | Inr matches \<Rightarrow> Inr (map (with_score ''similarity_score'') matches)))"

definition search_jobs_by_topic ::
  "services \<Rightarrow> index \<Rightarrow> string \<Rightarrow> int \<Rightarrow> exn + metadata list" where
  "search_jobs_by_topic svc job_index search_topic limit =
     except_return (search_jobs_by_topic_body svc job_index search_topic limit) []"

text \<open>
  \<open>PineconeOperations.get_job_history\<close>: the manager's history, sorted once more and cut
  to \<open>limit\<close>. It has no handler of its own.
\<close>

definition ops_get_job_history ::
  "services \<Rightarrow> index \<Rightarrow> string option \<Rightarrow> int \<Rightarrow> exn + metadata list" where
  "ops_get_job_history svc job_index user_id limit =
     (case get_job_history svc job_index user_id limit of
        Inl e \<Rightarrow> Inl e
      | Inr research_jobs \<Rightarrow>
          (case sort_by_created_at research_jobs of
             Inl e \<Rightarrow> Inl e
           | Inr all_jobs \<Rightarrow> Inr (slice_to limit all_jobs)))"

section \<open>The content manager (src/pinecone_ops/operations.py)\<close>

definition sources_request :: "embedding \<Rightarrow> string \<Rightarrow> int \<Rightarrow> query_request" where
  "sources_request query_embedding job_id limit =
     \<lparr>q_vector = query_embedding, q_top_k = limit, q_include_metadata = True,
      q_namespace = Some (''job_'' @ job_id), q_filter = []\<rparr>"

definition get_job_sources_body ::
  "services \<Rightarrow> index \<Rightarrow> string \<Rightarrow> int \<Rightarrow> exn + metadata list" where
  "get_job_sources_body svc content_index job_id limit =
     (case encode svc ''research sources content'' of
        Inl e \<Rightarrow> Inl e
      | Inr query_embedding \<Rightarrow>
          (case query svc content_index (sources_request query_embedding job_id limit) of
             Inl e \<Rightarrow> Inl e
           | Inr matches \<Rightarrow> Inr (map m_metadata matches)))"

definition get_job_sources ::
  "services \<Rightarrow> index \<Rightarrow> string \<Rightarrow> int \<Rightarrow> exn + metadata list" where
  "get_job_sources svc content_index job_id limit =
     except_return (get_job_sources_body svc content_index job_id limit) []"

definition content_namespace :: "string option \<Rightarrow> string option" where
  "content_namespace job_id =
     (case job_id of
        Some j \<Rightarrow> if j \<noteq> [] then Some (''job_'' @ j) else None
      | None \<Rightarrow> None)"

definition content_request :: "embedding \<Rightarrow> string option \<Rightarrow> int \<Rightarrow> query_request" where
  "content_request query_embedding job_id top_k =
     \<lparr>q_vector = query_embedding, q_top_k = top_k, q_include_metadata = True,
      q_namespace = content_namespace job_id, q_filter = []\<rparr>"

definition search_content_body ::
  "services \<Rightarrow> index \<Rightarrow> string \<Rightarrow> string option \<Rightarrow> int \<Rightarrow> exn + metadata list" where
  "search_content_body svc content_index query_text job_id top_k =
     (case encode svc query_text of
        Inl e \<Rightarrow> Inl e
      | Inr query_embedding \<Rightarrow>
          (case query svc content_index (content_request query_embedding job_id top_k) of
             Inl e \<Rightarrow> Inl e
           | Inr matches \<Rightarrow> Inr (map (with_score ''relevance_score'') matches)))"

definition search_content ::
  "services \<Rightarrow> index \<Rightarrow> string \<Rightarrow> string option \<Rightarrow> int \<Rightarrow> exn + metadata list" where
  "search_content svc content_index query_text job_id top_k =
     except_return (search_content_body svc content_index query_text job_id top_k) []"

section \<open>The job manager: \<open>_generate_job_id\<close> and \<open>create_job\<close>\<close>

text \<open>
  \<open>_generate_job_id\<close> reads the clock (the first reading of the call) and returns the
  first twelve hexadecimal digits of the MD5 digest of \<open>{job_type}_{topic}_{timestamp}\<close>.
\<close>

definition generate_job_id :: "services \<Rightarrow> string \<Rightarrow> string \<Rightarrow> string" where
  "generate_job_id svc topic job_type =
     (let timestamp = now svc 0;
          content = job_type @ ''_'' @ topic @ ''_'' @ timestamp
      in take 12 (md5_hexdigest content))"

text \<open>
  \<open>create_job\<close> has no handler: an exception of the embedding model or of the upsert
  reaches the caller. It returns the dictionary \<open>{'job_id': ..., 'namespace': ...}\<close>.
\<close>

definition create_job ::
  "services \<Rightarrow> index \<Rightarrow> string \<Rightarrow> string \<Rightarrow> (exn + (string \<rightharpoonup> string)) \<times> index" where
  "create_job svc job_index topic user_id =
     (let job_id = generate_job_id svc topic ''research'';
          namespace = ''job_'' @ job_id;
          job_metadata =
            [''job_id'' \<mapsto> VStr job_id,
             ''topic'' \<mapsto> VStr topic,
             ''user_id'' \<mapsto> VStr user_id,
             ''job_type'' \<mapsto> VStr ''research'',
             ''status'' \<mapsto> VStr ''pending'',
             ''created_at'' \<mapsto> VStr (now svc 1),
             ''updated_at'' \<mapsto> VStr (now svc 2),
             ''namespace'' \<mapsto> VStr namespace,
             ''source_count'' \<mapsto> VInt 0,
             ''processing_time_seconds'' \<mapsto> VInt 0,
             ''report'' \<mapsto> VStr [],
             ''error_message'' \<mapsto> VStr []];
          embedding_text = ''Research job: '' @ topic @ '' Status: pending Type: research''
      in case encode svc embedding_text of
           Inl e \<Rightarrow> (Inl e, job_index)
         | Inr embedding \<Rightarrow>
             (case upsert svc job_index
                     [\<lparr>vec_id = job_id, vec_values = embedding, vec_metadata = job_metadata\<rparr>]
                     ''jobs'' of
                Inl e \<Rightarrow> (Inl e, job_index)
              | Inr job_index' \<Rightarrow>
                  (Inr [''job_id'' \<mapsto> job_id, ''namespace'' \<mapsto> namespace], job_index')))"

section \<open>The search adapter (src/tools/serpapi_search_tool.py)\<close>

text \<open>\<open>d.get(key, default)\<close>.\<close>

definition dict_get :: "('k \<rightharpoonup> 'v) \<Rightarrow> 'k \<Rightarrow> 'v \<Rightarrow> 'v" where
  "dict_get d key dflt = (case d key of Some v \<Rightarrow> v | None \<Rightarrow> dflt)"

text \<open>
  \<open>1 / position\<close>: true division. It gives a float, raises \<open>ZeroDivisionError\<close> on
  zero and \<open>TypeError\<close> on a string. The float is modelled by the exact quotient.
\<close>

fun one_over :: "val \<Rightarrow> exn + val" where
  "one_over (VInt p) =
     (if p = 0 then Inl (ZeroDivisionError ''division by zero'')
      else Inr (VFloat (1 / real_of_int p)))"
| "one_over (VFloat r) =
     (if r = 0 then Inl (ZeroDivisionError ''float division by zero'')
      else Inr (VFloat (1 / r)))"
| "one_over (VStr s) = Inl (TypeError ''unsupported operand type(s) for /'')"

text \<open>
  The dictionary that one pass of the loop appends, given the result and its relevance,
  and the pass itself, which fails when the division does.
\<close>

definition formatted_entry :: "metadata \<Rightarrow> val \<Rightarrow> metadata" where
  "formatted_entry result relevance =
     [''url'' \<mapsto> dict_get result ''link'' (VStr []),
      ''title'' \<mapsto> dict_get result ''title'' (VStr []),
      ''snippet'' \<mapsto> dict_get result ''snippet'' (VStr []),
      ''content'' \<mapsto> dict_get result ''snippet'' (VStr []),
      ''relevance_score'' \<mapsto> relevance]"

definition format_result :: "metadata \<Rightarrow> exn + metadata" where
  "format_result result =
     (case one_over (dict_get result ''position'' (VInt 1)) of
        Inl e \<Rightarrow> Inl e
      | Inr relevance \<Rightarrow> Inr (formatted_entry result relevance))"

fun format_loop :: "metadata list \<Rightarrow> metadata list \<Rightarrow> exn + metadata list" where
  "format_loop [] formatted = Inr formatted"
| "format_loop (result # rest) formatted =
     (case format_result result of
        Inl e \<Rightarrow> Inl e
      | Inr entry \<Rightarrow> format_loop rest (formatted @ [entry]))"

text \<open>
  \<open>_format_results(raw_results)\<close>: \<open>raw_results\<close> is the dictionary of the search API,
  whose entry \<open>organic_results\<close>, when present, is a list of result dictionaries.
\<close>

definition format_results :: "(string \<rightharpoonup> metadata list) \<Rightarrow> exn + metadata list" where
  "format_results raw_results =
     (if ''organic_results'' \<in> dom raw_results
      then format_loop (dict_get raw_results ''organic_results'' []) []
      else Inr [])"

section \<open>\<open>datetime.isoformat\<close>\<close>

text \<open>
  The value that \<open>datetime.now()\<close> returns, without time zone, and the string that
  \<open>isoformat()\<close> makes of it: \<open>YYYY-MM-DDTHH:MM:SS.ffffff\<close>, every number padded with
  zeros to its width, and without the fraction when the microsecond is 0.
\<close>

record datetime =
  year :: nat
  month :: nat
  day :: nat
  hour :: nat
  minute :: nat
  second :: nat
  microsecond :: nat

definition valid_datetime :: "datetime \<Rightarrow> bool" where
  "valid_datetime d \<longleftrightarrow>
     1 \<le> year d \<and> year d \<le> 9999 \<and> 1 \<le> month d \<and> month d \<le> 12 \<and>
     1 \<le> day d \<and> day d \<le> 31 \<and> hour d < 24 \<and> minute d < 60 \<and> second d < 60 \<and>
     microsecond d < 1000000"

fun zero_padded :: "nat \<Rightarrow> nat \<Rightarrow> string" where
  "zero_padded 0 n = []"
| "zero_padded (Suc k) n = zero_padded k (n div 10) @ [char_of (48 + n mod 10)]"

definition fraction :: "nat \<Rightarrow> string" where
  "fraction us = (if us = 0 then [] else ''.'' @ zero_padded 6 us)"

definition isoformat :: "datetime \<Rightarrow> string" where
  "isoformat d =
     zero_padded 4 (year d) @ ''-'' @ zero_padded 2 (month d) @ ''-'' @ zero_padded 2 (day d)
       @ ''T'' @ zero_padded 2 (hour d) @ '':'' @ zero_padded 2 (minute d) @ '':''
       @ zero_padded 2 (second d) @ fraction (microsecond d)"

text \<open>The fields from the year down; their lexicographic order is the order in time.\<close>

definition fields :: "datetime \<Rightarrow> nat list" where
  "fields d = [year d, month d, day d, hour d, minute d, second d, microsecond d]"

section \<open>Notions used in the statements\<close>

text \<open>An error of one of the two classes that \<open>run_research\<close> retries.\<close>

definition retried :: "exn \<Rightarrow> bool" where
  "retried e \<longleftrightarrow> is_rate_limit (lower (str_exn e)) \<or> is_empty_response (lower (str_exn e))"

text \<open>
  A job record carries its creation time as a string under \<open>created_at\<close>; \<open>not_older x y\<close>
  says that both do and that the one of \<open>x\<close> is at least the one of \<open>y\<close>.
\<close>

definition has_str_created_at :: "metadata \<Rightarrow> bool" where
  "has_str_created_at x = (case x ''created_at'' of Some (VStr s) \<Rightarrow> True | _ \<Rightarrow> False)"

definition not_older :: "metadata \<Rightarrow> metadata \<Rightarrow> bool" where
  "not_older x y =
     (case (x ''created_at'', y ''created_at'') of
        (Some (VStr s), Some (VStr t)) \<Rightarrow> t \<le> s
      | _ \<Rightarrow> False)"

text \<open>
  The embedding call on \<open>text\<close> raises, or it returns and the similarity query on its
  result raises.
\<close>

definition lookup_fails ::
  "services \<Rightarrow> index \<Rightarrow> string \<Rightarrow> (embedding \<Rightarrow> query_request) \<Rightarrow> bool" where
  "lookup_fails svc idx text request =
     (case encode svc text of
        Inl e \<Rightarrow> True
      | Inr query_embedding \<Rightarrow>
          (case query svc idx (request query_embedding) of Inl e \<Rightarrow> True | Inr matches \<Rightarrow> False))"

text \<open>An organic result whose \<open>position\<close> is an integer from 1 on, and that integer.\<close>

definition has_position :: "metadata \<Rightarrow> bool" where
  "has_position result = (case result ''position'' of Some (VInt p) \<Rightarrow> 1 \<le> p | _ \<Rightarrow> False)"

definition position_of :: "metadata \<Rightarrow> int" where
  "position_of result = (case result ''position'' of Some (VInt p) \<Rightarrow> p | _ \<Rightarrow> 0)"

section \<open>Example inputs\<close>

text \<open>Services that answer every request, with a clock given by its three first readings.\<close>

definition working_services :: "string \<Rightarrow> string \<Rightarrow> string \<Rightarrow> services" where
  "working_services t0 t1 t2 =
     \<lparr>now = (\<lambda>k. if k = 0 then t0 else if k = 1 then t1 else t2),
      encode = (\<lambda>text. Inr [0]),
      fetch_error = None,
      fetch_has_vectors = True,
      upsert_error = None,
      query = (\<lambda>idx request. Inr []),
      repr_float = (\<lambda>r. ''0.0'')\<rparr>"

definition quiet_services :: services where
  "quiet_services =
     working_services ''2024-05-02T09:30:00.000001'' ''2024-05-02T09:30:00.000002''
       ''2024-05-02T09:30:00.000003''"

text \<open>Two calls that read the same clock value first, and one that comes seven seconds later.\<close>

definition first_call :: services where
  "first_call =
     working_services ''2024-05-01T12:00:00.123456'' ''2024-05-01T12:00:00.123461''
       ''2024-05-01T12:00:00.123463''"

definition second_call :: services where
  "second_call =
     working_services ''2024-05-01T12:00:00.123456'' ''2024-05-01T12:00:00.123460''
       ''2024-05-01T12:00:00.123465''"

definition later_call :: services where
  "later_call =
     working_services ''2024-05-01T12:00:07.000250'' ''2024-05-01T12:00:07.000255''
       ''2024-05-01T12:00:07.000257''"

text \<open>Services whose embedding model raises, and services whose vector store raises.\<close>

definition embedding_down :: services where
  "embedding_down = quiet_services\<lparr>encode := (\<lambda>text. Inl (ServiceError ''model not loaded''))\<rparr>"

definition store_down :: services where
  "store_down =
     quiet_services
       \<lparr>fetch_error := Some (ServiceError ''connection refused''),
        upsert_error := Some (ServiceError ''connection refused''),
        query := (\<lambda>idx request. Inl (ServiceError ''connection refused''))\<rparr>"

text \<open>A job index with one job.\<close>

definition stored_job :: vector where
  "stored_job =
     \<lparr>vec_id = ''0123456789ab'',
      vec_values = [0],
      vec_metadata =
        [''job_id'' \<mapsto> VStr ''0123456789ab'',
         ''topic'' \<mapsto> VStr ''solar sails'',
         ''user_id'' \<mapsto> VStr ''anonymous'',
         ''job_type'' \<mapsto> VStr ''research'',
         ''status'' \<mapsto> VStr ''pending'',
         ''created_at'' \<mapsto> VStr ''2024-05-01T12:00:00.123456'',
         ''updated_at'' \<mapsto> VStr ''2024-05-01T12:00:00.123460'',
         ''namespace'' \<mapsto> VStr ''job_0123456789ab'',
         ''source_count'' \<mapsto> VInt 4,
         ''processing_time_seconds'' \<mapsto> VInt 0,
         ''report'' \<mapsto> VStr ''draft'',
         ''error_message'' \<mapsto> VStr ''timeout'']\<rparr>"

definition one_job_index :: index where
  "one_job_index = [(''jobs'', ''0123456789ab'') \<mapsto> stored_job]"

text \<open>
  Two matches of a history query, the older one ranked first, and services whose query
  returns them.
\<close>

definition two_matches :: "scored_match list" where
  "two_matches =
     [\<lparr>m_metadata = [''topic'' \<mapsto> VStr ''older'',
                     ''created_at'' \<mapsto> VStr ''2024-05-01T12:00:00''],
       m_score = 0.9\<rparr>,
      \<lparr>m_metadata = [''topic'' \<mapsto> VStr ''newer'',
                     ''created_at'' \<mapsto> VStr ''2024-05-01T12:00:00.000001''],
       m_score = 0.4\<rparr>]"

definition history_services :: services where
  "history_services = quiet_services\<lparr>query := (\<lambda>idx request. Inr two_matches)\<rparr>"

text \<open>A search response with two organic results.\<close>

definition two_organic_results :: "metadata list" where
  "two_organic_results =
     [[''position'' \<mapsto> VInt 1, ''link'' \<mapsto> VStr ''https://a.example'',
       ''title'' \<mapsto> VStr ''A'', ''snippet'' \<mapsto> VStr ''first''],
      [''position'' \<mapsto> VInt 2, ''link'' \<mapsto> VStr ''https://b.example'',
       ''title'' \<mapsto> VStr ''B'', ''snippet'' \<mapsto> VStr ''second'']]"

definition two_results :: "string \<rightharpoonup> metadata list" where
  "two_results = [''organic_results'' \<mapsto> two_organic_results]"

text \<open>
  A crew whose every kickoff hits the rate limit, and one whose second kickoff fails for
  another reason.
\<close>

definition always_rate_limited :: "nat \<Rightarrow> exn + string" where
  "always_rate_limited attempt = Inl (ServiceError ''Error 429: Rate_Limit_Exceeded'')"

definition refused_on_retry :: "nat \<Rightarrow> exn + string" where
  "refused_on_retry attempt =
     (if attempt = 0 then Inl (ServiceError ''Invalid response from LLM call - None or empty.'')
      else Inl (ServiceError ''Connection refused''))"

section \<open>The scraper adapter: properties\<close>

text \<open>
  Claim C8, as stated, says that the output of \<open>_run\<close> is the same for every URL.
  It is not: two different URLs give two different outputs.
\<close>

theorem WebScraperTool_run_depends_on_url:
  "WebScraperTool_run ''https://a.example'' \<noteq> WebScraperTool_run ''https://b.example''"
  by (simp add: WebScraperTool_run_def)

text \<open>
  Claim C8, amended: for every URL, \<open>_run\<close> returns the placeholder sentence with the URL
  inside it. The text before and after the URL is fixed, and the outputs for two URLs are
  equal exactly when the URLs are.
\<close>

theorem WebScraperTool_run_embeds_url:
  "WebScraperTool_run url =
     ''Placeholder content for '' @ url @ ''. This tool is not fully implemented yet.'' \<and>
   (WebScraperTool_run u1 = WebScraperTool_run u2 \<longleftrightarrow> u1 = u2)"
  by (simp add: WebScraperTool_run_def)

theorem WebScraperTool_run_embeds_url_witness:
  "WebScraperTool_run ''https://c.example/page'' =
     ''Placeholder content for https://c.example/page. This tool is not fully implemented yet.'' \<and>
   WebScraperTool_run ''https://c.example/page'' \<noteq> WebScraperTool_run ''https://c.example/other''"
proof -
  note embeds = WebScraperTool_run_embeds_url
    [of "''https://c.example/page''" "''https://c.example/page''" "''https://c.example/other''"]
  have "''https://c.example/page'' \<noteq> ''https://c.example/other''"
    by simp
  with embeds have "WebScraperTool_run ''https://c.example/page'' \<noteq>
      WebScraperTool_run ''https://c.example/other''"
    by blast
  moreover from embeds have "WebScraperTool_run ''https://c.example/page'' =
     ''Placeholder content for https://c.example/page. This tool is not fully implemented yet.''"
    by simp
  ultimately show ?thesis
    by blast
qed

section \<open>The agent orchestrator: properties\<close>

lemma range_max_retries: "[0..<max_retries] = [0, 1]"
  by (simp add: max_retries_def upt_rec)

text \<open>One pass of the loop, by the outcome of the kickoff.\<close>

lemma attempts_success:
  assumes "kickoff attempt = Inr result"
  shows "attempts n d kickoff (attempt # rest) tr =
           (Inr (Some result), (if attempt > 0 then tr @ [Sleep d] else tr) @ [Kickoff attempt])"
  using assms by (simp add: Let_def)

lemma attempts_other_error:
  assumes "kickoff attempt = Inl e" and "\<not> retried e"
  shows "attempts n d kickoff (attempt # rest) tr =
           (Inl e, (if attempt > 0 then tr @ [Sleep d] else tr) @ [Kickoff attempt])"
  using assms by (simp add: retried_def)

lemma attempts_last_error:
  assumes "kickoff attempt = Inl e" and "\<not> int attempt < int n - 1"
  shows "attempts n d kickoff (attempt # rest) tr =
           (Inl e, (if attempt > 0 then tr @ [Sleep d] else tr) @ [Kickoff attempt])"
  using assms by (simp add: Let_def)

lemma attempts_retry:
  assumes "kickoff attempt = Inl e" and "retried e" and "int attempt < int n - 1"
  shows "attempts n d kickoff (attempt # rest) tr =
           attempts n d kickoff rest
             ((if attempt > 0 then tr @ [Sleep d] else tr) @ [Kickoff attempt, Sleep d])"
  using assms by (auto simp add: retried_def Let_def)

text \<open>
  The loop calls \<open>kickoff\<close> at most once per pass, for every number of attempts and every
  behaviour of the crew.
\<close>

lemma attempts_kickoff_bound:
  "length (filter is_kickoff (snd (attempts n d kickoff passes tr)))
     \<le> length (filter is_kickoff tr) + length passes"
proof (induction passes arbitrary: tr)
  case Nil
  then show ?case by simp
next
  case (Cons attempt rest)
  have "length (filter is_kickoff
          (snd (attempts n d kickoff rest (tr @ [Kickoff attempt, Sleep d]))))
        \<le> length (filter is_kickoff tr) + 1 + length rest"
    using Cons.IH [of "tr @ [Kickoff attempt, Sleep d]"] by simp
  moreover have "length (filter is_kickoff
          (snd (attempts n d kickoff rest (tr @ [Sleep d, Kickoff attempt, Sleep d]))))
        \<le> length (filter is_kickoff tr) + 1 + length rest"
    using Cons.IH [of "tr @ [Sleep d, Kickoff attempt, Sleep d]"] by simp
  ultimately show ?case
    by (auto simp add: Let_def split: sum.splits)
qed

declare attempts.simps [simp del]

lemma run_research_unfold:
  "run_research (Inr kickoff) = attempts 2 60 kickoff [0, 1] [Sleep 15]"
  by (simp add: run_research_def range_max_retries)
     (simp add: max_retries_def retry_delay_def initial_cooldown_def)

text \<open>\<open>run_research\<close> calls \<open>kickoff\<close> at most twice.\<close>

lemma run_research_kickoff_bound:
  "length (filter is_kickoff (snd (run_research (Inr kickoff)))) \<le> 2"
  using attempts_kickoff_bound [of 2 60 kickoff "[0, 1]" "[Sleep 15]"]
  by (simp add: run_research_unfold)

text \<open>A first kickoff that succeeds ends the run after the initial cooldown.\<close>

lemma run_research_first_success:
  assumes "kickoff 0 = Inr result"
  shows "run_research (Inr kickoff) = (Inr (Some result), [Sleep 15, Kickoff 0])"
  using attempts_success [of kickoff 0 result 2 60 "[1]" "[Sleep 15]"] assms
  by (simp add: run_research_unfold)

text \<open>
  With two attempts the loop never ends without a return or a raise: the result is never
  \<open>Inr None\<close>.
\<close>

lemma run_research_returns_or_raises:
  "fst (run_research (Inr kickoff)) \<noteq> Inr None"
proof (cases "kickoff 0")
  case (Inr result)
  then show ?thesis
    by (simp add: run_research_first_success)
next
  case first: (Inl e0)
  show ?thesis
  proof (cases "retried e0")
    case False
    then show ?thesis
      using attempts_other_error [of kickoff 0 e0 2 60 "[1]" "[Sleep 15]"] first
      by (simp add: run_research_unfold)
  next
    case True
    then have step: "run_research (Inr kickoff) =
        attempts 2 60 kickoff [1] [Sleep 15, Kickoff 0, Sleep 60]"
      using attempts_retry [of kickoff 0 e0 2 60 "[1]" "[Sleep 15]"] first
      by (simp add: run_research_unfold)
    show ?thesis
    proof (cases "kickoff 1")
      case (Inr result)
      then show ?thesis
        using attempts_success [of kickoff 1 result 2 60 "[]" "[Sleep 15, Kickoff 0, Sleep 60]"]
        by (simp add: step)
    next
      case (Inl e1)
      then show ?thesis
        using attempts_last_error [of kickoff 1 e1 2 60 "[]" "[Sleep 15, Kickoff 0, Sleep 60]"]
        by (simp add: step)
    qed
  qed
qed

text \<open>
  Claim C2: when every kickoff fails with a rate-limit error, \<open>run_research\<close> raises the
  error of the second attempt. The run is: the initial cooldown, the first kickoff, the
  cooldown of the handler and the cooldown that opens the second pass, the second kickoff,
  and then the raise, with no sleep and no kickoff after the second failure.
\<close>

theorem run_research_rate_limit_exhausts_two_attempts:
  assumes "\<forall>attempt. \<exists>e. kickoff attempt = Inl e \<and> is_rate_limit (lower (str_exn e))"
  shows "\<exists>e. kickoff 1 = Inl e \<and>
           run_research (Inr kickoff) =
             (Inl e, [Sleep 15, Kickoff 0, Sleep 60, Sleep 60, Kickoff 1])"
proof -
  obtain e0 where e0: "kickoff 0 = Inl e0" "retried e0"
    using assms unfolding retried_def by blast
  obtain e1 where e1: "kickoff 1 = Inl e1"
    using assms by blast
  have "run_research (Inr kickoff) = attempts 2 60 kickoff [0, 1] [Sleep 15]"
    by (rule run_research_unfold)
  also have "\<dots> = attempts 2 60 kickoff [1] [Sleep 15, Kickoff 0, Sleep 60]"
    using attempts_retry [of kickoff 0 e0 2 60 "[1]" "[Sleep 15]"] e0 by simp
  also have "\<dots> = (Inl e1, [Sleep 15, Kickoff 0, Sleep 60, Sleep 60, Kickoff 1])"
    using attempts_last_error [of kickoff 1 e1 2 60 "[]" "[Sleep 15, Kickoff 0, Sleep 60]"] e1
    by simp
  finally show ?thesis using e1 by blast
qed

theorem run_research_rate_limit_exhausts_two_attempts_witness:
  "run_research (Inr always_rate_limited) =
     (Inl (ServiceError ''Error 429: Rate_Limit_Exceeded''),
      [Sleep 15, Kickoff 0, Sleep 60, Sleep 60, Kickoff 1])"
proof -
  have "is_rate_limit (lower (str_exn (ServiceError ''Error 429: Rate_Limit_Exceeded'')))"
    by code_simp
  then have "\<forall>attempt. \<exists>e. always_rate_limited attempt = Inl e \<and>
      is_rate_limit (lower (str_exn e))"
    by (simp add: always_rate_limited_def)
  then show ?thesis
    using run_research_rate_limit_exhausts_two_attempts [of always_rate_limited]
    by (simp add: always_rate_limited_def)
qed

text \<open>
  Claim C6: an error of a kickoff whose lower-cased message holds neither a rate-limit marker
  nor an empty-response marker is raised by \<open>run_research\<close> in the pass where it occurs:
  the kickoff of that pass is the last event. The pass is the first one, or the second one
  after a first failure of a retried class.
\<close>

theorem run_research_other_error_propagates:
  assumes "kickoff attempt = Inl e"
    and "\<not> is_rate_limit (lower (str_exn e))"
    and "\<not> is_empty_response (lower (str_exn e))"
    and "attempt = 0 \<or> (attempt = 1 \<and> (\<exists>e0. kickoff 0 = Inl e0 \<and> retried e0))"
  shows "run_research (Inr kickoff) =
           (Inl e, (if attempt = 0 then [Sleep 15]
                    else [Sleep 15, Kickoff 0, Sleep 60, Sleep 60]) @ [Kickoff attempt])"
proof -
  have not_retried: "\<not> retried e"
    using assms(2,3) by (simp add: retried_def)
  have start: "run_research (Inr kickoff) = attempts 2 60 kickoff [0, 1] [Sleep 15]"
    by (rule run_research_unfold)
  show ?thesis
  proof (cases "attempt = 0")
    case True
    then show ?thesis
      using attempts_other_error [of kickoff attempt e 2 60 "[1]" "[Sleep 15]"]
        assms(1) not_retried start
      by simp
  next
    case False
    then obtain e0 where second: "attempt = 1" and e0: "kickoff 0 = Inl e0" "retried e0"
      using assms(4) by blast
    have "attempts 2 60 kickoff [0, 1] [Sleep 15] =
            attempts 2 60 kickoff [1] [Sleep 15, Kickoff 0, Sleep 60]"
      using attempts_retry [of kickoff 0 e0 2 60 "[1]" "[Sleep 15]"] e0 by simp
    also have "\<dots> = (Inl e, [Sleep 15, Kickoff 0, Sleep 60, Sleep 60, Kickoff 1])"
      using attempts_other_error [of kickoff attempt e 2 60 "[]" "[Sleep 15, Kickoff 0, Sleep 60]"]
        assms(1) not_retried second
      by simp
    finally show ?thesis using start second by simp
  qed
qed

theorem run_research_other_error_propagates_witness:
  "run_research (Inr refused_on_retry) =
     (Inl (ServiceError ''Connection refused''),
      [Sleep 15, Kickoff 0, Sleep 60, Sleep 60, Kickoff 1]) \<and>
   run_research (Inr (\<lambda>attempt. Inl (ServiceError ''Connection refused'') :: exn + string)) =
     (Inl (ServiceError ''Connection refused''), [Sleep 15, Kickoff 0])"
proof -
  have other: "\<not> is_rate_limit (lower (str_exn (ServiceError ''Connection refused'')))"
    "\<not> is_empty_response (lower (str_exn (ServiceError ''Connection refused'')))"
    by code_simp+
  have "retried (ServiceError ''Invalid response from LLM call - None or empty.'')"
    by code_simp
  then have first: "\<exists>e0. refused_on_retry 0 = Inl e0 \<and> retried e0"
    by (simp add: refused_on_retry_def)
  have second: "refused_on_retry 1 = Inl (ServiceError ''Connection refused'')"
    by (simp add: refused_on_retry_def)
  show ?thesis
    using run_research_other_error_propagates
            [of refused_on_retry 1 "ServiceError ''Connection refused''"]
          run_research_other_error_propagates
            [of "\<lambda>attempt. Inl (ServiceError ''Connection refused'') :: exn + string" 0
                "ServiceError ''Connection refused''"]
          other first second
    by simp
qed

section \<open>\<open>update_job_status\<close>: properties\<close>

lemma working_services_simps [simp]:
  "now (working_services t0 t1 t2) 0 = t0"
  "encode (working_services t0 t1 t2) s = Inr [0]"
  "fetch_error (working_services t0 t1 t2) = None"
  "fetch_has_vectors (working_services t0 t1 t2)"
  "upsert_error (working_services t0 t1 t2) = None"
  "query (working_services t0 t1 t2) idx request = Inr []"
  by (simp_all add: working_services_def)

lemma get_job_missing:
  "job_index (''jobs'', job_id) = None \<Longrightarrow> get_job svc job_index job_id = None"
  by (auto simp add: get_job_def fetch_def split: option.splits sum.splits if_splits)

lemma get_job_Some:
  "get_job svc job_index job_id = Some v \<Longrightarrow> job_index (''jobs'', job_id) = Some v"
  by (auto simp add: get_job_def fetch_def split: option.splits sum.splits if_splits)

lemma get_job_existing:
  assumes "fetch_error svc = None" and "fetch_has_vectors svc"
    and "job_index (''jobs'', job_id) = Some v"
  shows "get_job svc job_index job_id = Some v"
  using assms by (auto simp add: get_job_def fetch_def)

text \<open>What the merge does to each key.\<close>

lemma merge_metadata_other:
  "k \<notin> {''status'', ''updated_at'', ''report'', ''error_message'', ''source_count''} \<Longrightarrow>
     merge_metadata old status ts report error_message source_count k = old k"
  by (simp add: merge_metadata_def Let_def split: option.splits)

lemma merge_metadata_status:
  "merge_metadata old status ts report error_message source_count ''status'' = Some (VStr status)"
  by (simp add: merge_metadata_def Let_def split: option.splits)

lemma merge_metadata_updated_at:
  "merge_metadata old status ts report error_message source_count ''updated_at'' = Some (VStr ts)"
  by (simp add: merge_metadata_def Let_def split: option.splits)

lemma merge_metadata_report:
  "merge_metadata old status ts report error_message source_count ''report'' =
     (case report of
        Some r \<Rightarrow> if r \<noteq> [] then Some (VStr r) else old ''report''
      | None \<Rightarrow> old ''report'')"
  by (simp add: merge_metadata_def Let_def split: option.splits)

lemma merge_metadata_error_message:
  "merge_metadata old status ts report error_message source_count ''error_message'' =
     (case error_message of
        Some m \<Rightarrow> if m \<noteq> [] then Some (VStr m) else old ''error_message''
      | None \<Rightarrow> old ''error_message'')"
  by (simp add: merge_metadata_def Let_def split: option.splits)

lemma merge_metadata_source_count:
  "merge_metadata old status ts report error_message source_count ''source_count'' =
     (case source_count of Some n \<Rightarrow> Some (VInt n) | None \<Rightarrow> old ''source_count'')"
  by (simp add: merge_metadata_def Let_def split: option.splits)

text \<open>The update never raises: its result is a boolean.\<close>

lemma update_job_status_never_raises:
  "\<exists>ok. fst (update_job_status svc job_index job_id status report error_message source_count)
          = Inr ok"
  unfolding update_job_status_def except_return_def
  by (auto split: prod.splits sum.splits)

text \<open>
  An update that returns \<open>True\<close> found the job and stored the merged metadata under the
  same id, with a new embedding; nothing else in the index changed.
\<close>

lemma update_job_status_True:
  assumes "update_job_status svc job_index job_id status report error_message source_count
             = (Inr True, job_index')"
  shows "\<exists>old embedding.
           job_index (''jobs'', job_id) = Some old \<and>
           job_index' = job_index((''jobs'', job_id) \<mapsto>
             \<lparr>vec_id = job_id, vec_values = embedding,
              vec_metadata = merge_metadata (vec_metadata old) status (now svc 0)
                               report error_message source_count\<rparr>)"
  using assms
  by (auto simp add: update_job_status_def update_job_status_body_def except_return_def
        upsert_def Let_def
      dest: get_job_Some split: option.splits sum.splits if_splits)

text \<open>
  The update returns \<open>True\<close> when the fetch and the upsert go through, the job is stored
  with a topic, and the embedding model answers.
\<close>

lemma update_job_status_succeeds:
  assumes "fetch_error svc = None" and "fetch_has_vectors svc"
    and "job_index (''jobs'', job_id) = Some old"
    and "vec_metadata old ''topic'' = Some topic"
    and "encode svc (update_embedding_text svc topic status report) = Inr embedding"
    and "upsert_error svc = None"
  shows "update_job_status svc job_index job_id status report error_message source_count =
           (Inr True, job_index((''jobs'', job_id) \<mapsto>
             \<lparr>vec_id = job_id, vec_values = embedding,
              vec_metadata = merge_metadata (vec_metadata old) status (now svc 0)
                               report error_message source_count\<rparr>))"
proof -
  have "merge_metadata (vec_metadata old) status (now svc 0) report error_message source_count
          ''topic'' = Some topic"
    using assms(4) by (simp add: merge_metadata_other)
  then show ?thesis
    using assms get_job_existing [of svc job_index job_id old]
    by (simp add: update_job_status_def update_job_status_body_def except_return_def
          upsert_def Let_def)
qed

lemma update_stored_job:
  "\<exists>job_index'. update_job_status quiet_services one_job_index ''0123456789ab'' status
       report error_message source_count = (Inr True, job_index')"
  using update_job_status_succeeds [of quiet_services one_job_index "''0123456789ab''" stored_job
       "VStr ''solar sails''" status report "[0]" error_message source_count]
  by (simp add: quiet_services_def one_job_index_def stored_job_def)

text \<open>
  Claim C1: for a job id under which the job index holds no record, \<open>update_job_status\<close>
  returns \<open>False\<close>, whatever the status and the other arguments are and whatever the
  services do. It raises nothing and leaves the index as it was.
\<close>

theorem update_job_status_missing_job:
  assumes "job_index (''jobs'', job_id) = None"
  shows "update_job_status svc job_index job_id status report error_message source_count
           = (Inr False, job_index)"
  using assms
  by (simp add: get_job_missing update_job_status_def update_job_status_body_def
        except_return_def)

theorem update_job_status_missing_job_witness:
  "update_job_status quiet_services one_job_index ''ffffffffffff'' ''complete''
     (Some ''text'') None (Some 3) = (Inr False, one_job_index)"
  by (rule update_job_status_missing_job) (simp add: one_job_index_def)

text \<open>
  Claim C5: an update of an existing job that returns \<open>True\<close> stores a record whose
  \<open>status\<close> and \<open>updated_at\<close> are the new ones, whose \<open>report\<close>, \<open>error_message\<close> and
  \<open>source_count\<close> are the old ones when the argument was not supplied, and whose every other
  key, \<open>job_id\<close>, \<open>topic\<close>, \<open>user_id\<close>, \<open>job_type\<close>, \<open>created_at\<close>, \<open>namespace\<close> and
  \<open>processing_time_seconds\<close> among them, has the value it had before.
\<close>

theorem update_job_status_frame:
  assumes "job_index (''jobs'', job_id) = Some old"
    and "update_job_status svc job_index job_id status report error_message source_count
           = (Inr True, job_index')"
  shows "\<exists>new. job_index' (''jobs'', job_id) = Some new \<and>
           vec_metadata new ''status'' = Some (VStr status) \<and>
           vec_metadata new ''updated_at'' = Some (VStr (now svc 0)) \<and>
           (report = None \<longrightarrow> vec_metadata new ''report'' = vec_metadata old ''report'') \<and>
           (error_message = None \<longrightarrow>
              vec_metadata new ''error_message'' = vec_metadata old ''error_message'') \<and>
           (source_count = None \<longrightarrow>
              vec_metadata new ''source_count'' = vec_metadata old ''source_count'') \<and>
           (\<forall>k. k \<notin> {''status'', ''updated_at'', ''report'', ''error_message'', ''source_count''}
                 \<longrightarrow> vec_metadata new k = vec_metadata old k) \<and>
           (\<forall>k \<in> {''job_id'', ''topic'', ''user_id'', ''job_type'', ''created_at'', ''namespace'',
                    ''processing_time_seconds''}. vec_metadata new k = vec_metadata old k)"
proof -
  obtain old' embedding where old': "job_index (''jobs'', job_id) = Some old'"
    and new: "job_index' = job_index((''jobs'', job_id) \<mapsto>
             \<lparr>vec_id = job_id, vec_values = embedding,
              vec_metadata = merge_metadata (vec_metadata old') status (now svc 0)
                               report error_message source_count\<rparr>)"
    using update_job_status_True [OF assms(2)] by blast
  have [simp]: "old' = old"
    using old' assms(1) by simp
  show ?thesis
    unfolding new
    by (simp add: merge_metadata_status merge_metadata_updated_at merge_metadata_report
          merge_metadata_error_message merge_metadata_source_count merge_metadata_other)
qed

theorem update_job_status_frame_witness:
  "\<exists>new. snd (update_job_status quiet_services one_job_index ''0123456789ab'' ''complete''
                 None None None) (''jobs'', ''0123456789ab'') = Some new \<and>
         vec_metadata new ''status'' = Some (VStr ''complete'') \<and>
         vec_metadata new ''updated_at'' = Some (VStr ''2024-05-02T09:30:00.000001'') \<and>
         vec_metadata new ''report'' = Some (VStr ''draft'') \<and>
         vec_metadata new ''error_message'' = Some (VStr ''timeout'') \<and>
         vec_metadata new ''source_count'' = Some (VInt 4) \<and>
         vec_metadata new ''job_id'' = Some (VStr ''0123456789ab'') \<and>
         vec_metadata new ''topic'' = Some (VStr ''solar sails'') \<and>
         vec_metadata new ''user_id'' = Some (VStr ''anonymous'') \<and>
         vec_metadata new ''job_type'' = Some (VStr ''research'') \<and>
         vec_metadata new ''created_at'' = Some (VStr ''2024-05-01T12:00:00.123456'') \<and>
         vec_metadata new ''namespace'' = Some (VStr ''job_0123456789ab'') \<and>
         vec_metadata new ''processing_time_seconds'' = Some (VInt 0)"
proof -
  obtain job_index' where run: "update_job_status quiet_services one_job_index ''0123456789ab''
      ''complete'' None None None = (Inr True, job_index')"
    using update_stored_job by blast
  have old: "one_job_index (''jobs'', ''0123456789ab'') = Some stored_job"
    by (simp add: one_job_index_def)
  obtain new where new: "job_index' (''jobs'', ''0123456789ab'') = Some new"
    and changed: "vec_metadata new ''status'' = Some (VStr ''complete'')"
      "vec_metadata new ''updated_at'' = Some (VStr (now quiet_services 0))"
    and kept: "vec_metadata new ''report'' = vec_metadata stored_job ''report''"
      "vec_metadata new ''error_message'' = vec_metadata stored_job ''error_message''"
      "vec_metadata new ''source_count'' = vec_metadata stored_job ''source_count''"
    and others: "\<forall>k \<in> {''job_id'', ''topic'', ''user_id'', ''job_type'', ''created_at'',
        ''namespace'', ''processing_time_seconds''}.
        vec_metadata new k = vec_metadata stored_job k"
    using update_job_status_frame [OF old run] by auto
  have "snd (update_job_status quiet_services one_job_index ''0123456789ab'' ''complete''
                 None None None) (''jobs'', ''0123456789ab'') = Some new"
    using new by (simp add: run)
  then show ?thesis
    using changed kept others by (simp add: stored_job_def quiet_services_def)
qed

text \<open>
  Claim C10: in an update of an existing job that returns \<open>True\<close>, an empty \<open>report\<close>
  leaves the stored \<open>report\<close> as it was, an empty \<open>error_message\<close> leaves the stored
  \<open>error_message\<close> as it was, and a \<open>source_count\<close> of 0 is stored.
\<close>

theorem update_job_status_empty_strings_ignored:
  assumes "job_index (''jobs'', job_id) = Some old"
    and "update_job_status svc job_index job_id status report error_message source_count
           = (Inr True, job_index')"
  shows "\<exists>new. job_index' (''jobs'', job_id) = Some new \<and>
           (report = Some [] \<longrightarrow> vec_metadata new ''report'' = vec_metadata old ''report'') \<and>
           (error_message = Some [] \<longrightarrow>
              vec_metadata new ''error_message'' = vec_metadata old ''error_message'') \<and>
           (source_count = Some 0 \<longrightarrow> vec_metadata new ''source_count'' = Some (VInt 0))"
proof -
  obtain old' embedding where old': "job_index (''jobs'', job_id) = Some old'"
    and new: "job_index' = job_index((''jobs'', job_id) \<mapsto>
             \<lparr>vec_id = job_id, vec_values = embedding,
              vec_metadata = merge_metadata (vec_metadata old') status (now svc 0)
                               report error_message source_count\<rparr>)"
    using update_job_status_True [OF assms(2)] by blast
  have [simp]: "old' = old"
    using old' assms(1) by simp
  show ?thesis
    unfolding new
    by (simp add: merge_metadata_report merge_metadata_error_message merge_metadata_source_count)
qed

theorem update_job_status_empty_strings_ignored_witness:
  "\<exists>new. snd (update_job_status quiet_services one_job_index ''0123456789ab'' ''complete''
                 (Some []) (Some []) (Some 0)) (''jobs'', ''0123456789ab'') = Some new \<and>
         vec_metadata new ''report'' = Some (VStr ''draft'') \<and>
         vec_metadata new ''error_message'' = Some (VStr ''timeout'') \<and>
         vec_metadata new ''source_count'' = Some (VInt 0)"
proof -
  obtain job_index' where run: "update_job_status quiet_services one_job_index ''0123456789ab''
      ''complete'' (Some []) (Some []) (Some 0) = (Inr True, job_index')"
    using update_stored_job by blast
  have old: "one_job_index (''jobs'', ''0123456789ab'') = Some stored_job"
    by (simp add: one_job_index_def)
  show ?thesis
    using update_job_status_empty_strings_ignored [OF old run]
    by (simp add: run stored_job_def)
qed

text \<open>A non-empty report is written; this is the other side of the test on the report.\<close>

lemma update_job_status_report_written:
  assumes "update_job_status svc job_index job_id status (Some r) error_message source_count
           = (Inr True, job_index')"
    and "r \<noteq> []"
  shows "\<exists>new. job_index' (''jobs'', job_id) = Some new \<and>
           vec_metadata new ''report'' = Some (VStr r)"
  using update_job_status_True [OF assms(1)] assms(2)
  by (auto simp add: merge_metadata_report)

section \<open>The read operations: properties\<close>

subsection \<open>Sorting\<close>

lemma sort_reverse_mset: "mset (sort_reverse f xs) = mset xs"
  by (simp add: sort_reverse_def)

lemma sort_reverse_sorted: "sorted_wrt (\<lambda>x y. f y \<le> f x) (sort_reverse f xs)"
proof -
  have "sorted (map f (sort_key f (rev xs)))"
    by (rule sorted_sort_key)
  then have "sorted_wrt (\<lambda>x y. f x \<le> f y) (sort_key f (rev xs))"
    by (simp add: sorted_wrt_map)
  then show ?thesis
    by (simp add: sort_reverse_def sorted_wrt_rev)
qed

text \<open>The sort is stable: the jobs with a given key keep their order.\<close>

lemma sort_reverse_stable: "filter (\<lambda>x. f x = k) (sort_reverse f xs) = filter (\<lambda>x. f x = k) xs"
proof -
  have "filter (\<lambda>x. f x = k) (sort_key f (rev xs)) = filter (\<lambda>x. f x = k) (rev xs)"
    by (rule sort_key_stable)
  then have "rev (filter (\<lambda>x. f x = k) (sort_key f (rev xs))) = filter (\<lambda>x. f x = k) xs"
    by (simp add: rev_filter)
  then show ?thesis
    by (simp add: sort_reverse_def rev_filter)
qed

text \<open>A list that is in descending order already is left as it is.\<close>

lemma sort_reverse_sorted_id:
  assumes "sorted_wrt (\<lambda>x y. f y \<le> f x) xs"
  shows "sort_reverse f xs = xs"
proof -
  have "sorted_wrt (\<lambda>x y. f x \<le> f y) (rev xs)"
    using assms by (simp add: sorted_wrt_rev)
  then have "sorted (map f (rev xs))"
    by (simp add: sorted_wrt_map)
  then have "sort_key f (rev xs) = rev xs"
    by (rule sort_key_id_if_sorted)
  then show ?thesis
    by (simp add: sort_reverse_def)
qed

lemma created_at_keys_str:
  assumes "\<forall>x \<in> set jobs. has_str_created_at x"
  shows "created_at_keys jobs = Inr (map (\<lambda>x. VStr (str_key x)) jobs)"
  using assms
  by (induction jobs)
     (auto simp add: has_str_created_at_def str_key_def split: option.splits val.splits)

lemma sort_by_created_at_str:
  assumes "\<forall>x \<in> set jobs. has_str_created_at x"
  shows "sort_by_created_at jobs = Inr (sort_reverse str_key jobs)"
  using created_at_keys_str [OF assms]
  by (simp add: sort_by_created_at_def list_all_iff)

text \<open>A job without the key makes the sort raise \<open>KeyError\<close>.\<close>

lemma created_at_keys_missing:
  "x \<in> set jobs \<Longrightarrow> x ''created_at'' = None \<Longrightarrow>
     created_at_keys jobs = Inl (KeyError ''created_at'')"
  by (induction jobs) (auto split: option.splits sum.splits)

lemma sort_by_created_at_missing_key:
  assumes "\<exists>x \<in> set jobs. x ''created_at'' = None"
  shows "sort_by_created_at jobs = Inl (KeyError ''created_at'')"
  using assms
  by (auto simp add: sort_by_created_at_def created_at_keys_missing)

lemma not_older_str_key:
  assumes "has_str_created_at x" and "has_str_created_at y"
  shows "not_older x y \<longleftrightarrow> str_key y \<le> str_key x"
  using assms
  by (auto simp add: not_older_def has_str_created_at_def str_key_def
      split: option.splits val.splits)

lemma sorted_wrt_not_older:
  assumes "\<forall>x \<in> set jobs. has_str_created_at x"
  shows "sorted_wrt not_older jobs \<longleftrightarrow> sorted_wrt (\<lambda>x y. str_key y \<le> str_key x) jobs"
  using assms
  by (induction jobs) (auto simp add: not_older_str_key)

lemma with_score_created_at [simp]:
  "has_str_created_at (with_score ''score'' m) = has_str_created_at (m_metadata m)"
  by (simp add: has_str_created_at_def with_score_def)

lemma sorted_wrt_slice_to: "sorted_wrt R xs \<Longrightarrow> sorted_wrt R (slice_to n xs)"
  by (simp add: slice_to_def)

text \<open>
  Cutting to a limit that is not negative and not below the length changes nothing; this is
  the case when the service returns at most \<open>top_k\<close> matches.
\<close>

lemma slice_to_all: "0 \<le> n \<Longrightarrow> length xs \<le> nat n \<Longrightarrow> slice_to n xs = xs"
  by (simp add: slice_to_def)

subsection \<open>\<open>get_job_history\<close>\<close>

text \<open>
  Claim C3: when the similarity query of \<open>get_job_history\<close> returns job records, each with
  its creation time as a string under \<open>created_at\<close>, the result holds exactly those records
  (each with the score of its match added), ordered so that no record is older than one that
  comes after it; strings are compared as Python compares them. This holds for every
  \<open>user_id\<close> and every \<open>limit\<close>. \<open>PineconeOperations.get_job_history\<close> returns the same
  list cut to \<open>limit\<close>, which is in the same order.
\<close>

theorem get_job_history_sorted_descending:
  assumes enc: "encode svc (history_query_text user_id) = Inr query_embedding"
    and qry: "query svc job_index (history_request query_embedding user_id limit) = Inr matches"
    and keys: "\<forall>m \<in> set matches. has_str_created_at (m_metadata m)"
  shows "\<exists>jobs. get_job_history svc job_index user_id limit = Inr jobs \<and>
           mset jobs = mset (map (with_score ''score'') matches) \<and>
           sorted_wrt not_older jobs \<and>
           ops_get_job_history svc job_index user_id limit = Inr (slice_to limit jobs) \<and>
           sorted_wrt not_older (slice_to limit jobs)"
proof -
  let ?found = "map (with_score ''score'') matches"
  let ?jobs = "sort_reverse str_key ?found"
  have found: "\<forall>x \<in> set ?found. has_str_created_at x"
    using keys by simp
  have sorted_found: "sort_by_created_at ?found = Inr ?jobs"
    using found by (rule sort_by_created_at_str)
  have history: "get_job_history svc job_index user_id limit = Inr ?jobs"
    using enc qry sorted_found
    by (simp add: get_job_history_def get_job_history_body_def except_return_def)
  have perm: "mset ?jobs = mset ?found"
    by (rule sort_reverse_mset)
  have jobs: "\<forall>x \<in> set ?jobs. has_str_created_at x"
    using found perm by (metis set_mset_mset)
  have desc: "sorted_wrt (\<lambda>x y. str_key y \<le> str_key x) ?jobs"
    by (rule sort_reverse_sorted)
  then have sorted_jobs: "sorted_wrt not_older ?jobs"
    using jobs by (simp add: sorted_wrt_not_older)
  have again: "sort_by_created_at ?jobs = Inr ?jobs"
    using sort_by_created_at_str [OF jobs] sort_reverse_sorted_id [OF desc] by simp
  have ops: "ops_get_job_history svc job_index user_id limit = Inr (slice_to limit ?jobs)"
    using history again by (simp add: ops_get_job_history_def)
  show ?thesis
    using history perm sorted_jobs ops sorted_wrt_slice_to [OF sorted_jobs] by blast
qed

theorem get_job_history_sorted_descending_witness:
  "\<exists>jobs. get_job_history history_services Map.empty (Some ''alice'') 10 = Inr jobs \<and>
           mset jobs = mset (map (with_score ''score'') two_matches) \<and>
           sorted_wrt not_older jobs \<and>
           ops_get_job_history history_services Map.empty (Some ''alice'') 10
             = Inr (slice_to 10 jobs) \<and>
           sorted_wrt not_older (slice_to 10 jobs)"
  by (rule get_job_history_sorted_descending [where query_embedding = "[0]"])
     (simp_all add: history_services_def quiet_services_def working_services_def
        two_matches_def has_str_created_at_def)

text \<open>
  The example run: the query ranks the older job first, the history returns the newer one
  first. The two creation times differ in that the older one has no fraction of a second.
\<close>

lemma get_job_history_example:
  "get_job_history history_services Map.empty None 10 =
     Inr [[''topic'' \<mapsto> VStr ''newer'', ''created_at'' \<mapsto> VStr ''2024-05-01T12:00:00.000001'',
           ''score'' \<mapsto> VFloat 0.4],
          [''topic'' \<mapsto> VStr ''older'', ''created_at'' \<mapsto> VStr ''2024-05-01T12:00:00'',
           ''score'' \<mapsto> VFloat 0.9]]"
  by (simp add: get_job_history_def get_job_history_body_def except_return_def
      history_services_def quiet_services_def working_services_def two_matches_def
      history_query_text_def sort_by_created_at_def with_score_def str_key_def sort_reverse_def
      less_eq_char_def less_char_def)

text \<open>
  When one returned record has no \<open>created_at\<close>, the sort raises inside the \<open>try\<close> block
  and the history is empty.
\<close>

lemma get_job_history_missing_created_at:
  assumes "encode svc (history_query_text user_id) = Inr query_embedding"
    and "query svc job_index (history_request query_embedding user_id limit) = Inr matches"
    and "\<exists>m \<in> set matches. m_metadata m ''created_at'' = None"
  shows "get_job_history svc job_index user_id limit = Inr []"
proof -
  have "\<exists>x \<in> set (map (with_score ''score'') matches). x ''created_at'' = None"
    using assms(3) by (auto simp add: with_score_def)
  then have "sort_by_created_at (map (with_score ''score'') matches)
      = Inl (KeyError ''created_at'')"
    by (rule sort_by_created_at_missing_key)
  then show ?thesis
    using assms(1,2)
    by (simp add: get_job_history_def get_job_history_body_def except_return_def)
qed

subsection \<open>Failures of the services\<close>

text \<open>
  Claim C9: \<open>get_job_history\<close>, \<open>search_jobs_by_topic\<close>, \<open>get_job_sources\<close> and
  \<open>search_content\<close> never raise, for any input and any behaviour of the services; and when
  the embedding call or the similarity query of the operation raises, the operation returns
  the empty list.
\<close>

theorem read_operations_return_empty_on_failure:
  "(\<exists>jobs. get_job_history svc job_index user_id limit = Inr jobs) \<and>
   (\<exists>jobs. search_jobs_by_topic svc job_index search_topic limit = Inr jobs) \<and>
   (\<exists>sources. get_job_sources svc content_index job_id limit = Inr sources) \<and>
   (\<exists>results. search_content svc content_index query_text opt_job_id top_k = Inr results) \<and>
   (lookup_fails svc job_index (history_query_text user_id)
        (\<lambda>query_embedding. history_request query_embedding user_id limit)
      \<longrightarrow> get_job_history svc job_index user_id limit = Inr []) \<and>
   (lookup_fails svc job_index (''Research topic: '' @ search_topic)
        (\<lambda>query_embedding. topic_request query_embedding limit)
      \<longrightarrow> search_jobs_by_topic svc job_index search_topic limit = Inr []) \<and>
   (lookup_fails svc content_index ''research sources content''
        (\<lambda>query_embedding. sources_request query_embedding job_id limit)
      \<longrightarrow> get_job_sources svc content_index job_id limit = Inr []) \<and>
   (lookup_fails svc content_index query_text
        (\<lambda>query_embedding. content_request query_embedding opt_job_id top_k)
      \<longrightarrow> search_content svc content_index query_text opt_job_id top_k = Inr [])"
proof -
  have returns: "\<exists>x. except_return body d = Inr x" for body :: "exn + metadata list" and d
    by (simp add: except_return_def split: sum.splits)
  have never:
    "\<exists>jobs. get_job_history svc job_index user_id limit = Inr jobs"
    "\<exists>jobs. search_jobs_by_topic svc job_index search_topic limit = Inr jobs"
    "\<exists>sources. get_job_sources svc content_index job_id limit = Inr sources"
    "\<exists>results. search_content svc content_index query_text opt_job_id top_k = Inr results"
    by (simp_all add: get_job_history_def search_jobs_by_topic_def get_job_sources_def
          search_content_def returns)
  have history:
    "lookup_fails svc job_index (history_query_text user_id)
        (\<lambda>query_embedding. history_request query_embedding user_id limit)
      \<longrightarrow> get_job_history svc job_index user_id limit = Inr []"
    by (simp add: lookup_fails_def get_job_history_def get_job_history_body_def
          except_return_def split: sum.splits)
  have topic:
    "lookup_fails svc job_index (''Research topic: '' @ search_topic)
        (\<lambda>query_embedding. topic_request query_embedding limit)
      \<longrightarrow> search_jobs_by_topic svc job_index search_topic limit = Inr []"
    by (simp add: lookup_fails_def search_jobs_by_topic_def search_jobs_by_topic_body_def
          except_return_def split: sum.splits)
  have sources:
    "lookup_fails svc content_index ''research sources content''
        (\<lambda>query_embedding. sources_request query_embedding job_id limit)
      \<longrightarrow> get_job_sources svc content_index job_id limit = Inr []"
    by (simp add: lookup_fails_def get_job_sources_def get_job_sources_body_def
          except_return_def split: sum.splits)
  have content:
    "lookup_fails svc content_index query_text
        (\<lambda>query_embedding. content_request query_embedding opt_job_id top_k)
      \<longrightarrow> search_content svc content_index query_text opt_job_id top_k = Inr []"
    by (simp add: lookup_fails_def search_content_def search_content_body_def
          except_return_def split: sum.splits)
  show ?thesis
    using never history topic sources content by blast
qed

theorem read_operations_return_empty_on_failure_witness:
  "get_job_history embedding_down Map.empty (Some ''alice'') 10 = Inr [] \<and>
   search_jobs_by_topic embedding_down Map.empty ''solar sails'' 10 = Inr [] \<and>
   get_job_sources embedding_down Map.empty ''0123456789ab'' 10 = Inr [] \<and>
   search_content embedding_down Map.empty ''photon pressure'' None 5 = Inr [] \<and>
   get_job_history store_down Map.empty (Some ''alice'') 10 = Inr [] \<and>
   search_jobs_by_topic store_down Map.empty ''solar sails'' 10 = Inr [] \<and>
   get_job_sources store_down Map.empty ''0123456789ab'' 10 = Inr [] \<and>
   search_content store_down Map.empty ''photon pressure'' None 5 = Inr []"
proof -
  have down: "lookup_fails embedding_down idx s request" for idx s request
    by (simp add: lookup_fails_def embedding_down_def)
  have refused: "lookup_fails store_down idx s request" for idx s request
    by (simp add: lookup_fails_def store_down_def quiet_services_def working_services_def)
  show ?thesis
    using read_operations_return_empty_on_failure
            [of embedding_down Map.empty "Some ''alice''" 10 "''solar sails''" Map.empty
               "''0123456789ab''" "''photon pressure''" None 5]
          read_operations_return_empty_on_failure
            [of store_down Map.empty "Some ''alice''" 10 "''solar sails''" Map.empty
               "''0123456789ab''" "''photon pressure''" None 5]
          down refused
    by simp
qed

section \<open>The search adapter: properties\<close>

lemma format_result_position:
  assumes "has_position result"
  shows "format_result result =
           Inr (formatted_entry result (VFloat (1 / real_of_int (position_of result))))"
  using assms
  by (auto simp add: has_position_def position_of_def format_result_def dict_get_def
      split: option.splits val.splits)

lemma format_loop_positions:
  assumes "\<forall>result \<in> set results. has_position result"
  shows "format_loop results formatted =
           Inr (formatted @
                map (\<lambda>result. formatted_entry result (VFloat (1 / real_of_int (position_of result))))
                  results)"
  using assms
  by (induction results arbitrary: formatted) (simp_all add: format_result_position)

lemma formatted_entry_relevance [simp]:
  "formatted_entry result relevance ''relevance_score'' = Some relevance"
  by (simp add: formatted_entry_def)

text \<open>A result at position 0 makes the whole formatting raise.\<close>

lemma format_results_position_zero:
  "format_results [''organic_results'' \<mapsto> [[''position'' \<mapsto> VInt 0]]] =
     Inl (ZeroDivisionError ''division by zero'')"
  by (simp add: format_results_def dict_get_def format_result_def)

text \<open>
  Claim C4: for a search response whose organic results all carry an integer position from 1
  on, \<open>_format_results\<close> returns one entry per result, in order, and the \<open>relevance_score\<close>
  of each entry is 1 divided by the position of its result. The entry of a result at
  position 1 has a strictly higher score than the entry of a result at position 2.
\<close>

theorem format_results_relevance_is_reciprocal_position:
  assumes "raw_results ''organic_results'' = Some results"
    and "\<forall>result \<in> set results. has_position result"
  shows "\<exists>formatted. format_results raw_results = Inr formatted \<and>
           length formatted = length results \<and>
           (\<forall>i < length results.
              (formatted ! i) ''relevance_score'' =
                Some (VFloat (1 / real_of_int (position_of (results ! i))))) \<and>
           (\<forall>i < length results. \<forall>j < length results.
              position_of (results ! i) = 1 \<and> position_of (results ! j) = 2 \<longrightarrow>
              (\<exists>first second. (formatted ! i) ''relevance_score'' = Some (VFloat first) \<and>
                 (formatted ! j) ''relevance_score'' = Some (VFloat second) \<and> second < first))"
proof -
  let ?formatted =
    "map (\<lambda>result. formatted_entry result (VFloat (1 / real_of_int (position_of result)))) results"
  have "format_results raw_results = Inr ?formatted"
    using assms format_loop_positions [OF assms(2), of "[]"]
    by (simp add: format_results_def dict_get_def dom_def)
  moreover have "length ?formatted = length results"
    by simp
  moreover have "\<forall>i < length results.
      (?formatted ! i) ''relevance_score'' =
         Some (VFloat (1 / real_of_int (position_of (results ! i))))"
    by simp
  moreover have "\<forall>i < length results. \<forall>j < length results.
      position_of (results ! i) = 1 \<and> position_of (results ! j) = 2 \<longrightarrow>
      (\<exists>first second. (?formatted ! i) ''relevance_score'' = Some (VFloat first) \<and>
         (?formatted ! j) ''relevance_score'' = Some (VFloat second) \<and> second < first)"
  proof (intro allI impI)
    fix i j
    assume "i < length results" and "j < length results"
      and "position_of (results ! i) = 1 \<and> position_of (results ! j) = 2"
    then have "(?formatted ! i) ''relevance_score'' = Some (VFloat 1)"
      and "(?formatted ! j) ''relevance_score'' = Some (VFloat (1 / 2))"
      by simp_all
    moreover have "(1 / 2 :: real) < 1"
      by simp
    ultimately show "\<exists>first second. (?formatted ! i) ''relevance_score'' = Some (VFloat first) \<and>
         (?formatted ! j) ''relevance_score'' = Some (VFloat second) \<and> second < first"
      by blast
  qed
  ultimately show ?thesis by blast
qed

theorem format_results_relevance_is_reciprocal_position_witness:
  "\<exists>formatted. format_results two_results = Inr formatted \<and>
           length formatted = 2 \<and>
           (formatted ! 0) ''relevance_score'' = Some (VFloat 1) \<and>
           (formatted ! 1) ''relevance_score'' = Some (VFloat (1 / 2))"
proof -
  have organic: "two_results ''organic_results'' = Some two_organic_results"
    by (simp add: two_results_def)
  have positions: "\<forall>result \<in> set two_organic_results. has_position result"
    by (simp add: two_organic_results_def has_position_def)
  obtain formatted where f: "format_results two_results = Inr formatted"
    "length formatted = length two_organic_results"
    "\<forall>i < length two_organic_results. (formatted ! i) ''relevance_score'' =
                Some (VFloat (1 / real_of_int (position_of (two_organic_results ! i))))"
    using format_results_relevance_is_reciprocal_position [of two_results two_organic_results]
      organic positions
    by blast
  have "(formatted ! 0) ''relevance_score'' = Some (VFloat 1)"
    using f(3) by (simp add: two_organic_results_def position_of_def)
  moreover have "(formatted ! 1) ''relevance_score'' = Some (VFloat (1 / 2))"
    using f(3) by (simp add: two_organic_results_def position_of_def)
  moreover have "length formatted = 2"
    using f(2) by (simp add: two_organic_results_def)
  ultimately show ?thesis using f(1) by simp
qed

section \<open>\<open>create_job\<close>: properties\<close>

text \<open>
  The digest function on two inputs whose digests are known: the string \<open>abc\<close>, and the string
  that \<open>_generate_job_id\<close> hashes for the topic \<open>solar sails\<close> at two clock readings.
\<close>

lemma md5_hexdigest_abc: "md5_hexdigest ''abc'' = ''900150983cd24fb0d6963f7d28e17f72''"
  by code_simp

lemma job_id_first_example:
  "take 12 (md5_hexdigest ''research_solar sails_2024-05-01T12:00:00.123456'') = ''20015b872595''"
  by code_simp

lemma job_id_later_example:
  "take 12 (md5_hexdigest ''research_solar sails_2024-05-01T12:00:07.000250'') = ''7d78a44a315b''"
  by code_simp

lemma create_job_returns:
  assumes "create_job svc job_index topic user_id = (Inr r, job_index')"
  shows "r = [''job_id'' \<mapsto> generate_job_id svc topic ''research'',
              ''namespace'' \<mapsto> ''job_'' @ generate_job_id svc topic ''research'']"
  using assms
  by (auto simp add: create_job_def Let_def split: sum.splits)

text \<open>
  \<open>create_job\<close> returns when the embedding model answers and the upsert goes through; the new
  record is then stored under the job id, in state \<open>pending\<close>, with its creation time.
\<close>

lemma create_job_succeeds:
  assumes "encode svc (''Research job: '' @ topic @ '' Status: pending Type: research'')
             = Inr embedding"
    and "upsert_error svc = None"
  shows "\<exists>job_index' v.
           create_job svc job_index topic user_id =
             (Inr [''job_id'' \<mapsto> generate_job_id svc topic ''research'',
                   ''namespace'' \<mapsto> ''job_'' @ generate_job_id svc topic ''research''],
              job_index') \<and>
           job_index' (''jobs'', generate_job_id svc topic ''research'') = Some v \<and>
           vec_metadata v ''status'' = Some (VStr ''pending'') \<and>
           vec_metadata v ''topic'' = Some (VStr topic) \<and>
           vec_metadata v ''created_at'' = Some (VStr (now svc 1))"
  using assms
  by (simp add: create_job_def Let_def upsert_def)

text \<open>
  Claim C7: two calls of \<open>create_job\<close> with the same topic produce two distinct job ids.
  The docstring of \<open>_generate_job_id\<close> promises a unique id, and the code does not keep the
  promise. In the run below the two calls read the same clock value in \<open>_generate_job_id\<close>;
  both return the job id \<open>20015b872595\<close>, for different users and different later readings.
\<close>

theorem create_job_same_timestamp_same_id:
  "fst (create_job first_call Map.empty ''solar sails'' ''alice'') =
     Inr [''job_id'' \<mapsto> ''20015b872595'', ''namespace'' \<mapsto> ''job_20015b872595''] \<and>
   fst (create_job second_call (snd (create_job first_call Map.empty ''solar sails'' ''alice''))
          ''solar sails'' ''bob'') =
     Inr [''job_id'' \<mapsto> ''20015b872595'', ''namespace'' \<mapsto> ''job_20015b872595'']"
proof -
  have first: "generate_job_id first_call ''solar sails'' ''research'' = ''20015b872595''"
    using job_id_first_example by (simp add: generate_job_id_def first_call_def)
  have second: "generate_job_id second_call ''solar sails'' ''research'' = ''20015b872595''"
    using job_id_first_example by (simp add: generate_job_id_def second_call_def)
  have "fst (create_job first_call job_index ''solar sails'' user_id) =
      Inr [''job_id'' \<mapsto> ''20015b872595'', ''namespace'' \<mapsto> ''job_20015b872595'']"
    for job_index user_id
    using create_job_succeeds [of first_call "''solar sails''" "[0]" job_index user_id] first
    by (auto simp add: first_call_def)
  moreover have "fst (create_job second_call job_index ''solar sails'' user_id) =
      Inr [''job_id'' \<mapsto> ''20015b872595'', ''namespace'' \<mapsto> ''job_20015b872595'']"
    for job_index user_id
    using create_job_succeeds [of second_call "''solar sails''" "[0]" job_index user_id] second
    by (auto simp add: second_call_def)
  ultimately show ?thesis
    by simp
qed

text \<open>
  In the same run the record of the second call replaces the record of the first: after
  the first call the job stored under the id is the one of \<open>alice\<close>, after the second call
  it is the one of \<open>bob\<close>, and the job of \<open>alice\<close> is gone.
\<close>

lemma create_job_same_timestamp_overwrites:
  "map_option (\<lambda>v. vec_metadata v ''user_id'')
     (snd (create_job first_call Map.empty ''solar sails'' ''alice'') (''jobs'', ''20015b872595''))
     = Some (Some (VStr ''alice'')) \<and>
   map_option (\<lambda>v. vec_metadata v ''user_id'')
     (snd (create_job second_call
             (snd (create_job first_call Map.empty ''solar sails'' ''alice''))
             ''solar sails'' ''bob'') (''jobs'', ''20015b872595''))
     = Some (Some (VStr ''bob''))"
proof -
  have first: "generate_job_id first_call ''solar sails'' ''research'' = ''20015b872595''"
    using job_id_first_example by (simp add: generate_job_id_def first_call_def)
  have second: "generate_job_id second_call ''solar sails'' ''research'' = ''20015b872595''"
    using job_id_first_example by (simp add: generate_job_id_def second_call_def)
  have "map_option (\<lambda>v. vec_metadata v ''user_id'')
      (snd (create_job first_call job_index ''solar sails'' user_id) (''jobs'', ''20015b872595''))
      = Some (Some (VStr user_id))" for job_index user_id
    using first by (simp add: create_job_def Let_def upsert_def first_call_def)
  moreover have "map_option (\<lambda>v. vec_metadata v ''user_id'')
      (snd (create_job second_call job_index ''solar sails'' user_id) (''jobs'', ''20015b872595''))
      = Some (Some (VStr user_id))" for job_index user_id
    using second by (simp add: create_job_def Let_def upsert_def second_call_def)
  ultimately show ?thesis
    by simp
qed

text \<open>
  The same holds for every topic and all services: the job id is made of the job type, the
  topic and the clock reading of \<open>_generate_job_id\<close> and of nothing else, so two calls with the
  same topic that read the same clock value return the same job id.
\<close>

lemma create_job_id_depends_on_timestamp_only:
  assumes "create_job svc1 job_index1 topic user1 = (Inr r1, job_index1')"
    and "create_job svc2 job_index2 topic user2 = (Inr r2, job_index2')"
    and "now svc1 0 = now svc2 0"
  shows "r1 ''job_id'' = r2 ''job_id''"
  using create_job_returns [OF assms(1)] create_job_returns [OF assms(2)] assms(3)
  by (simp add: generate_job_id_def Let_def)

text \<open>
  A call that reads a later clock value hashes another string; in this run it gets another
  job id.
\<close>

lemma create_job_later_timestamp_other_id:
  "fst (create_job first_call Map.empty ''solar sails'' ''alice'') =
     Inr [''job_id'' \<mapsto> ''20015b872595'', ''namespace'' \<mapsto> ''job_20015b872595''] \<and>
   fst (create_job later_call (snd (create_job first_call Map.empty ''solar sails'' ''alice''))
          ''solar sails'' ''alice'') =
     Inr [''job_id'' \<mapsto> ''7d78a44a315b'', ''namespace'' \<mapsto> ''job_7d78a44a315b'']"
proof -
  have first: "generate_job_id first_call ''solar sails'' ''research'' = ''20015b872595''"
    using job_id_first_example by (simp add: generate_job_id_def first_call_def)
  have later: "generate_job_id later_call ''solar sails'' ''research'' = ''7d78a44a315b''"
    using job_id_later_example by (simp add: generate_job_id_def later_call_def)
  have "fst (create_job first_call job_index ''solar sails'' user_id) =
      Inr [''job_id'' \<mapsto> ''20015b872595'', ''namespace'' \<mapsto> ''job_20015b872595'']"
    for job_index user_id
    using create_job_succeeds [of first_call "''solar sails''" "[0]" job_index user_id] first
    by (auto simp add: first_call_def)
  moreover have "fst (create_job later_call job_index ''solar sails'' user_id) =
      Inr [''job_id'' \<mapsto> ''7d78a44a315b'', ''namespace'' \<mapsto> ''job_7d78a44a315b'']"
    for job_index user_id
    using create_job_succeeds [of later_call "''solar sails''" "[0]" job_index user_id] later
    by (auto simp add: later_call_def)
  ultimately show ?thesis
    by simp
qed

section \<open>Creation times of stored jobs\<close>

text \<open>
  Every record that \<open>create_job\<close> stores has a string under \<open>created_at\<close>, and
  \<open>update_job_status\<close> keeps it: in a job index where every record has one, every record
  has one after either operation, whatever the outcome.
\<close>

lemma create_job_keeps_created_at:
  assumes "\<forall>key v. job_index key = Some v \<longrightarrow> has_str_created_at (vec_metadata v)"
  shows "\<forall>key v. snd (create_job svc job_index topic user_id) key = Some v
           \<longrightarrow> has_str_created_at (vec_metadata v)"
  using assms
  by (auto simp add: create_job_def Let_def upsert_def has_str_created_at_def
      split: sum.splits option.splits if_splits)

lemma merge_metadata_created_at:
  "has_str_created_at (merge_metadata old status ts report error_message source_count)
     = has_str_created_at old"
  by (simp add: has_str_created_at_def merge_metadata_other)

lemma update_job_status_keeps_created_at:
  assumes "\<forall>key v. job_index key = Some v \<longrightarrow> has_str_created_at (vec_metadata v)"
  shows "\<forall>key v.
           snd (update_job_status svc job_index job_id status report error_message source_count)
             key = Some v
           \<longrightarrow> has_str_created_at (vec_metadata v)"
proof (intro allI impI)
  fix key v
  assume stored:
    "snd (update_job_status svc job_index job_id status report error_message source_count) key
       = Some v"
  obtain ok job_index' where run:
    "update_job_status svc job_index job_id status report error_message source_count
       = (Inr ok, job_index')"
    using update_job_status_never_raises
      [of svc job_index job_id status report error_message source_count]
    by (metis prod.collapse)
  show "has_str_created_at (vec_metadata v)"
  proof (cases ok)
    case True
    then obtain old embedding where old: "job_index (''jobs'', job_id) = Some old"
      and new: "job_index' = job_index((''jobs'', job_id) \<mapsto>
             \<lparr>vec_id = job_id, vec_values = embedding,
              vec_metadata = merge_metadata (vec_metadata old) status (now svc 0)
                               report error_message source_count\<rparr>)"
      using update_job_status_True
        [of svc job_index job_id status report error_message source_count job_index'] run
      by auto
    have kept: "has_str_created_at (vec_metadata old)"
      using assms old by blast
    show ?thesis
    proof (cases "key = (''jobs'', job_id)")
      case True
      then show ?thesis
        using stored kept by (auto simp add: run new merge_metadata_created_at)
    next
      case False
      then have "job_index key = Some v"
        using stored by (simp add: run new)
      then show ?thesis
        using assms by blast
    qed
  next
    case False
    have "job_index' = job_index"
      using run False
      by (auto simp add: update_job_status_def update_job_status_body_def except_return_def
            upsert_def Let_def split: option.splits sum.splits if_splits)
    then have "job_index key = Some v"
      using stored by (simp add: run)
    then show ?thesis
      using assms by blast
  qed
qed

section \<open>Creation times as strings\<close>

text \<open>Zero-padded numbers of the same width compare as the numbers do.\<close>

lemma length_zero_padded [simp]: "length (zero_padded k n) = k"
  by (induction k arbitrary: n) simp_all

lemma append_less_iff:
  fixes a b :: "'a::linorder list"
  assumes "length a = length b"
  shows "a @ x < b @ y \<longleftrightarrow> a < b \<or> a = b \<and> x < y"
  using assms by (induction a b rule: list_induct2) auto

lemma append_le_iff:
  fixes a b :: "'a::linorder list"
  assumes "length a = length b"
  shows "a @ x \<le> b @ y \<longleftrightarrow> a < b \<or> a = b \<and> x \<le> y"
  using assms by (induction a b rule: list_induct2) auto

lemma div_10_less: "m < 10 * p \<Longrightarrow> m div 10 < (p::nat)"
  using less_mult_imp_div_less [of m p 10] by (simp add: mult.commute)

lemma lex_atoms:
  fixes qm rm qn rn :: nat
  assumes "rm < 10" and "rn < 10"
  shows "10 * qm + rm < 10 * qn + rn \<longleftrightarrow> qm < qn \<or> qm = qn \<and> rm < rn"
  using assms by linarith

lemma eq_div_mod_10: "(m::nat) = n \<longleftrightarrow> m div 10 = n div 10 \<and> m mod 10 = n mod 10"
proof
  assume "m = n"
  then show "m div 10 = n div 10 \<and> m mod 10 = n mod 10"
    by simp
next
  assume parts: "m div 10 = n div 10 \<and> m mod 10 = n mod 10"
  have "m = 10 * (m div 10) + m mod 10"
    by simp
  also have "\<dots> = 10 * (n div 10) + n mod 10"
    using parts by simp
  also have "\<dots> = n"
    by simp
  finally show "m = n" .
qed

lemma less_div_mod_10:
  "(m::nat) < n \<longleftrightarrow> m div 10 < n div 10 \<or> m div 10 = n div 10 \<and> m mod 10 < n mod 10"
  using lex_atoms [of "m mod 10" "n mod 10" "m div 10" "n div 10"] by simp

lemma of_char_digit:
  fixes a :: nat
  assumes "a < 10"
  shows "of_char (char_of (48 + a) :: char) = 48 + a"
  using assms by simp

lemma digit_less_iff:
  fixes a b :: nat
  assumes "a < 10" and "b < 10"
  shows "(char_of (48 + a) :: char) < char_of (48 + b) \<longleftrightarrow> a < b"
  using of_char_digit [OF assms(1)] of_char_digit [OF assms(2)]
  by (simp only: less_char_def) simp

lemma digit_eq_iff:
  fixes a b :: nat
  assumes "a < 10" and "b < 10"
  shows "(char_of (48 + a) :: char) = char_of (48 + b) \<longleftrightarrow> a = b"
proof
  assume "(char_of (48 + a) :: char) = char_of (48 + b)"
  then have "(of_char (char_of (48 + a) :: char) :: nat) = of_char (char_of (48 + b) :: char)"
    by simp
  then show "a = b"
    using of_char_digit [OF assms(1)] of_char_digit [OF assms(2)] by simp
next
  assume "a = b"
  then show "(char_of (48 + a) :: char) = char_of (48 + b)"
    by simp
qed

lemma zero_padded_eq_iff:
  assumes "m < 10 ^ k" and "n < 10 ^ k"
  shows "zero_padded k m = zero_padded k n \<longleftrightarrow> m = n"
  using assms
proof (induction k arbitrary: m n)
  case 0
  then show ?case by simp
next
  case (Suc k)
  have "m div 10 < 10 ^ k" "n div 10 < 10 ^ k"
    using Suc.prems by (simp_all add: div_10_less)
  then have "zero_padded k (m div 10) = zero_padded k (n div 10) \<longleftrightarrow> m div 10 = n div 10"
    by (rule Suc.IH)
  moreover have "(char_of (48 + m mod 10) :: char) = char_of (48 + n mod 10)
      \<longleftrightarrow> m mod 10 = n mod 10"
    by (rule digit_eq_iff) simp_all
  ultimately show ?case
    using eq_div_mod_10 [of m n] by simp
qed

lemma zero_padded_less_iff:
  assumes "m < 10 ^ k" and "n < 10 ^ k"
  shows "zero_padded k m < zero_padded k n \<longleftrightarrow> m < n"
  using assms
proof (induction k arbitrary: m n)
  case 0
  then show ?case by simp
next
  case (Suc k)
  have bounds: "m div 10 < 10 ^ k" "n div 10 < 10 ^ k"
    using Suc.prems by (simp_all add: div_10_less)
  have less: "zero_padded k (m div 10) < zero_padded k (n div 10) \<longleftrightarrow> m div 10 < n div 10"
    using bounds by (rule Suc.IH)
  have eq: "zero_padded k (m div 10) = zero_padded k (n div 10) \<longleftrightarrow> m div 10 = n div 10"
    using bounds by (rule zero_padded_eq_iff)
  have digit: "(char_of (48 + m mod 10) :: char) < char_of (48 + n mod 10)
      \<longleftrightarrow> m mod 10 < n mod 10"
    by (rule digit_less_iff) simp_all
  show ?case
    using less eq digit less_div_mod_10 [of m n] by (simp add: append_less_iff)
qed

lemma zero_padded_le_iff:
  assumes "m < 10 ^ k" and "n < 10 ^ k"
  shows "zero_padded k m \<le> zero_padded k n \<longleftrightarrow> m \<le> n"
  using zero_padded_less_iff [OF assms] zero_padded_eq_iff [OF assms]
  by (simp add: le_less)

lemma fraction_le_iff:
  assumes "m < 10 ^ 6" and "n < 10 ^ 6"
  shows "fraction m \<le> fraction n \<longleftrightarrow> m \<le> n"
  using zero_padded_le_iff [OF assms]
  by (simp add: fraction_def)

text \<open>Two blocks of digits of the same width, each followed by the same separator.\<close>

lemma block_le_iff:
  assumes "m < 10 ^ k" and "n < 10 ^ k"
  shows "zero_padded k m @ c # x \<le> zero_padded k n @ c # y \<longleftrightarrow> m < n \<or> m = n \<and> x \<le> y"
  using zero_padded_less_iff [OF assms] zero_padded_eq_iff [OF assms]
  by (simp add: append_le_iff)

text \<open>
  On the strings of two valid dates, the order of Python strings is the order in time.
\<close>

lemma isoformat_order:
  assumes "valid_datetime d1" and "valid_datetime d2"
  shows "isoformat d1 \<le> isoformat d2 \<longleftrightarrow> fields d1 \<le> fields d2"
proof -
  have y: "year d1 < 10 ^ 4" "year d2 < 10 ^ 4"
    and m: "month d1 < 10 ^ 2" "month d2 < 10 ^ 2"
    and d: "day d1 < 10 ^ 2" "day d2 < 10 ^ 2"
    and h: "hour d1 < 10 ^ 2" "hour d2 < 10 ^ 2"
    and mi: "minute d1 < 10 ^ 2" "minute d2 < 10 ^ 2"
    and s: "second d1 < 10 ^ 2" "second d2 < 10 ^ 2"
    and us: "microsecond d1 < 10 ^ 6" "microsecond d2 < 10 ^ 6"
    using assms by (simp_all add: valid_datetime_def)
  have second_part:
    "zero_padded 2 (second d1) @ fraction (microsecond d1)
       \<le> zero_padded 2 (second d2) @ fraction (microsecond d2)
     \<longleftrightarrow> second d1 < second d2 \<or> second d1 = second d2 \<and> microsecond d1 \<le> microsecond d2"
    using zero_padded_less_iff [OF s] zero_padded_eq_iff [OF s] fraction_le_iff [OF us]
    by (simp add: append_le_iff)
  show ?thesis
    unfolding isoformat_def fields_def
    by (simp only: append_Cons append_Nil block_le_iff [OF y] block_le_iff [OF m]
          block_le_iff [OF d] block_le_iff [OF h] block_le_iff [OF mi] second_part
          Cons_le_Cons)
       auto
qed

lemma isoformat_example:
  "isoformat \<lparr>year = 2024, month = 5, day = 1, hour = 12, minute = 0, second = 7,
     microsecond = 250\<rparr> = ''2024-05-01T12:00:07.000250''"
  by code_simp

lemma isoformat_example_whole_second:
  "isoformat \<lparr>year = 987, month = 5, day = 1, hour = 12, minute = 0, second = 7,
     microsecond = 0\<rparr> = ''0987-05-01T12:00:07''"
  by code_simp

text \<open>
  So for two records whose \<open>created_at\<close> was written by \<open>isoformat()\<close>, \<open>not_older\<close>
  is the order of the two dates.
\<close>

lemma not_older_isoformat:
  assumes "x ''created_at'' = Some (VStr (isoformat d1))"
    and "y ''created_at'' = Some (VStr (isoformat d2))"
    and "valid_datetime d1" and "valid_datetime d2"
  shows "not_older x y \<longleftrightarrow> fields d2 \<le> fields d1"
  using assms isoformat_order [of d2 d1]
  by (simp add: not_older_def)

end
